theory Spec2Isabelle
  imports Complex_Main "HOL-Library.AList"
begin

section \<open>Common vocabulary\<close>

text \<open>
  JavaScript exceptions are values: an operation that may throw returns
  \<open>js_error + 'a\<close> (\<open>Inl\<close> is the throw) together with the state it leaves
  behind, because a throw does not undo the assignments made before it.
  \<open>Date.now()\<close> and \<open>Math.random()\<close> are inputs of the operation that reads them.
  A JavaScript number that the program does not validate (\<open>maxObjects\<close>, a
  colour, a coordinate) is a real number; \<open>NaN\<close>, which is falsy, is an absent
  value where the program reads the number with \<open>||\<close>, and the infinities are
  outside the model. Timestamps and array lengths are natural numbers.

  A \<open>throw\<close> can throw any value. \<open>Nullish\<close> is a thrown \<open>null\<close> or
  \<open>undefined\<close>, \<open>Error m\<close> any other thrown value (\<open>m\<close> is what its
  \<open>message\<close> property holds), \<open>TypeError\<close> the error the runtime throws when
  a property of \<open>null\<close> or \<open>undefined\<close> is read. Every \<open>catch\<close> block of
  the program starts by reading \<open>error.message\<close>: on a \<open>Nullish\<close> value that
  read throws a \<open>TypeError\<close> out of the \<open>catch\<close> block.
\<close>

datatype js_error = Error string | TypeError | Nullish

text \<open>A string is falsy exactly when it is empty; an absent property is \<open>None\<close>.\<close>

definition truthy :: "string option \<Rightarrow> bool" where
  "truthy v = (case v of None \<Rightarrow> False | Some s \<Rightarrow> s \<noteq> [])"

text \<open>\<open>a || b\<close> on string-valued properties.\<close>

definition or_else :: "string option \<Rightarrow> string \<Rightarrow> string" where
  "or_else v d = (if truthy v then the v else d)"

text \<open>\<open>n || d\<close> on a number: \<open>0\<close> and an absent property are falsy.\<close>

definition num_or :: "real option \<Rightarrow> real \<Rightarrow> real" where
  "num_or v d = (case v of None \<Rightarrow> d | Some n \<Rightarrow> if n = 0 then d else n)"

text \<open>
  Sequencing of two steps of a method body: when the first step throws, the second
  does not run and the exception leaves the method with the state reached so far.
\<close>

definition and_then ::
  "(js_error + 'a) \<times> 's \<Rightarrow> ('a \<Rightarrow> 's \<Rightarrow> (js_error + 'b) \<times> 's) \<Rightarrow> (js_error + 'b) \<times> 's" where
  "and_then m f = (case fst m of Inl err \<Rightarrow> (Inl err, snd m) | Inr a \<Rightarrow> f a (snd m))"

text \<open>\<open>Array.prototype.findIndex\<close> (\<open>None\<close> is \<open>-1\<close>) and \<open>splice(i, 1)\<close>.\<close>

fun findIndex :: "('a \<Rightarrow> bool) \<Rightarrow> 'a list \<Rightarrow> nat option" where
  "findIndex P [] = None"
| "findIndex P (x # xs) =
     (if P x then Some 0 else (case findIndex P xs of None \<Rightarrow> None | Some i \<Rightarrow> Some (Suc i)))"

definition splice1 :: "'a list \<Rightarrow> nat \<Rightarrow> 'a list" where
  "splice1 xs i = take i xs @ drop (Suc i) xs"

section \<open>GameRegistry (src/utils/GameRegistry.js)\<close>

subsection \<open>Collaborators as the registry sees them\<close>

text \<open>
  The registry only touches the objects a factory returns through a few properties:
  \<open>interface.isActive\<close>, \<open>interface.endSession()\<close>, \<open>interface.cleanup\<close>
  and \<open>engine.cleanup\<close>. Each object is the record of
  what these properties hold and of what a call of the method throws, if anything.
\<close>

record interface_obj =
  if_name :: string
  isActive :: bool
  if_has_cleanup :: bool
  endSession_throws :: "js_error option"
  if_cleanup_throws :: "js_error option"

record engine_obj =
  en_name :: string
  en_has_cleanup :: bool
  en_cleanup_throws :: "js_error option"

text \<open>
  What \<open>await game.createGame()\<close> does: it throws (or rejects), resolves to
  \<open>null\<close>, or resolves to an object whose \<open>engine\<close> and \<open>interface\<close>
  properties may each be missing.
\<close>

datatype factory_outcome =
    FactoryThrows js_error
  | FactoryNull
  | FactoryObject "engine_obj option" "interface_obj option"

text \<open>The argument of \<open>registerGame\<close>: every property may be absent.\<close>

record game_config =
  cfg_id :: "string option"
  cfg_name :: "string option"
  cfg_description :: "string option"
  cfg_isPlayable :: "bool option"
  cfg_players :: "string option"
  cfg_difficulty :: "string option"
  cfg_estimatedTime :: "string option"
  cfg_category :: "string option"
  cfg_createGame :: "factory_outcome option"

text \<open>The catalog entry that \<open>registerGame\<close> builds.\<close>

record game =
  g_id :: string
  g_name :: string
  g_description :: string
  g_isPlayable :: bool
  g_players :: string
  g_difficulty :: string
  g_estimatedTime :: string
  g_category :: string
  g_createGame :: "factory_outcome option"
  g_registeredAt :: nat

record active_game =
  ag_gameId :: string
  ag_game :: game
  ag_engine :: "engine_obj option"
  ag_interface :: "interface_obj option"
  ag_createdAt :: nat

text \<open>
  Everything the registry does to the outside, in the order it does it: the
  \<open>CustomEvent\<close>s dispatched on \<open>window\<close>, the calls into the active
  instance, the call of a factory and the errors written to the console.
\<close>

datatype reg_effect =
    GameSelected string "string option"
  | GameInstanceCreated string
  | GameInstanceCleaned string
  | CallEndSession string
  | CallInterfaceCleanup string
  | CallEngineCleanup string
  | CallFactory string
  | ConsoleError

text \<open>
  \<open>games\<close> is a JavaScript \<open>Map\<close>: an association list in insertion order, in
  which \<open>set\<close> on a present key replaces the value in place.
\<close>

record registry =
  games :: "(string \<times> game) list"
  selectedGameId :: "string option"
  activeGame :: "active_game option"
  effects :: "reg_effect list"

definition emit :: "reg_effect \<Rightarrow> registry \<Rightarrow> registry" where
  "emit x r = r\<lparr>effects := effects r @ [x]\<rparr>"

subsection \<open>registerGame, getGame, selectGame, getSelectedGame\<close>

definition make_game :: "game_config \<Rightarrow> nat \<Rightarrow> game" where
  "make_game c now =
     \<lparr> g_id = the (cfg_id c),
       g_name = the (cfg_name c),
       g_description = or_else (cfg_description c) ''No description available'',
       g_isPlayable = (case cfg_isPlayable c of None \<Rightarrow> False | Some b \<Rightarrow> b),
       g_players = or_else (cfg_players c) ''1'',
       g_difficulty = or_else (cfg_difficulty c) ''Unknown'',
       g_estimatedTime = or_else (cfg_estimatedTime c) ''Unknown'',
       g_category = or_else (cfg_category c) ''General'',
       g_createGame = cfg_createGame c,
       g_registeredAt = now \<rparr>"

definition registerGame :: "registry \<Rightarrow> game_config \<Rightarrow> nat \<Rightarrow> (js_error + bool) \<times> registry" where
  "registerGame r c now =
     (if \<not> truthy (cfg_id c) \<or> \<not> truthy (cfg_name c)
      then (Inl (Error ''Game registration requires id and name''), r)
      else (Inr True, r\<lparr>games := AList.update (the (cfg_id c)) (make_game c now) (games r)\<rparr>))"

definition getGame :: "registry \<Rightarrow> string \<Rightarrow> game option" where
  "getGame r gameId = map_of (games r) gameId"

definition selectGame :: "registry \<Rightarrow> string \<Rightarrow> bool \<times> registry" where
  "selectGame r gameId =
     (case map_of (games r) gameId of
        None \<Rightarrow> (False, r)
      | Some g \<Rightarrow>
          (True, emit (GameSelected gameId (selectedGameId r)) (r\<lparr>selectedGameId := Some gameId\<rparr>)))"

definition getSelectedGame :: "registry \<Rightarrow> game option" where
  "getSelectedGame r =
     (if \<not> truthy (selectedGameId r) then None
      else map_of (games r) (the (selectedGameId r)))"

subsection \<open>cleanupActiveGame and createGameInstance\<close>

text \<open>
  A call into the active instance is recorded and then either returns or throws;
  a throw reaches the \<open>catch\<close> block with the registry as it is then. The
  objects' own state after a call is not tracked: the registry reads
  \<open>isActive\<close> once, before it calls anything.
  Both operations are \<open>async\<close>; the model is the sequence of their steps, with
  nothing else running at an \<open>await\<close> (the caller obligation of the design).
\<close>

definition calls :: "reg_effect \<Rightarrow> js_error option \<Rightarrow> registry \<Rightarrow> (js_error + unit) \<times> registry" where
  "calls x thrown r = ((case thrown of None \<Rightarrow> Inr () | Some err \<Rightarrow> Inl err), emit x r)"

text \<open>
  The \<open>catch\<close> blocks of the registry: \<open>terminal.log(..., error.message)\<close>,
  then \<open>console.error\<close>, then the method goes on to return \<open>v\<close>. Reading
  \<open>message\<close> of a thrown \<open>null\<close> or \<open>undefined\<close> throws instead, before
  anything is logged.
\<close>

definition catch_log :: "js_error \<Rightarrow> 'a \<Rightarrow> registry \<Rightarrow> (js_error + 'a) \<times> registry" where
  "catch_log err v r =
     (if err = Nullish then (Inl TypeError, r) else (Inr v, emit ConsoleError r))"

text \<open>The body of the \<open>try\<close> block of \<open>cleanupActiveGame\<close>, up to the last call.\<close>

definition teardown :: "active_game \<Rightarrow> registry \<Rightarrow> (js_error + unit) \<times> registry" where
  "teardown ag r =
     and_then
       (case ag_interface ag of
          Some i \<Rightarrow>
            if isActive i then calls (CallEndSession (ag_gameId ag)) (endSession_throws i) r
            else (Inr (), r)
        | None \<Rightarrow> (Inr (), r))
       (\<lambda>u r1. and_then
          (case ag_interface ag of
             Some i \<Rightarrow>
               if if_has_cleanup i
               then calls (CallInterfaceCleanup (ag_gameId ag)) (if_cleanup_throws i) r1
               else (Inr (), r1)
           | None \<Rightarrow> (Inr (), r1))
          (\<lambda>u r2.
             (case ag_engine ag of
                Some e \<Rightarrow>
                  if en_has_cleanup e
                  then calls (CallEngineCleanup (ag_gameId ag)) (en_cleanup_throws e) r2
                  else (Inr (), r2)
              | None \<Rightarrow> (Inr (), r2))))"

definition cleanupActiveGame :: "registry \<Rightarrow> (js_error + unit) \<times> registry" where
  "cleanupActiveGame r =
     (case activeGame r of
        None \<Rightarrow> (Inr (), r)
      | Some ag \<Rightarrow>
          (let (res, r1) = teardown ag r in
           case res of
             Inr u \<Rightarrow>
               (Inr (), emit (GameInstanceCleaned (ag_gameId ag)) (r1\<lparr>activeGame := None\<rparr>))
           | Inl err \<Rightarrow> catch_log err () r1))"

text \<open>
  \<open>createGameInstance\<close>: three early returns, then the \<open>try\<close> block. A
  rejection of \<open>await this.cleanupActiveGame()\<close> and a throw of the factory both
  land in the \<open>catch\<close> block, as does the \<open>Error\<close> the method throws itself
  for an invalid instance.
\<close>

definition createGameInstance ::
  "registry \<Rightarrow> string option \<Rightarrow> nat \<Rightarrow> (js_error + active_game option) \<times> registry" where
  "createGameInstance r gameId now =
     (let targetGameId = (if truthy gameId then gameId else selectedGameId r) in
      if \<not> truthy targetGameId then (Inr None, r)
      else
       (case map_of (games r) (the targetGameId) of
          None \<Rightarrow> (Inr None, r)
        | Some game \<Rightarrow>
           (if \<not> g_isPlayable game \<or> g_createGame game = None then (Inr None, r)
            else
             (let (cleaned, r1) =
                    (if activeGame r \<noteq> None then cleanupActiveGame r else (Inr (), r))
              in (case cleaned of
                    Inl err \<Rightarrow> catch_log err None r1
                  | Inr u \<Rightarrow>
                     (let r2 = emit (CallFactory (the targetGameId)) r1
                      in (case the (g_createGame game) of
                            FactoryThrows err \<Rightarrow> catch_log err None r2
                          | FactoryNull \<Rightarrow>
                              catch_log
                                (Error ''Invalid game instance created - missing engine or interface'')
                                None r2
                          | FactoryObject eng itf \<Rightarrow>
                             (if eng = None \<or> itf = None
                              then catch_log
                                (Error ''Invalid game instance created - missing engine or interface'')
                                None r2
                              else
                               (let ag = \<lparr> ag_gameId = the targetGameId, ag_game = game,
                                           ag_engine = eng, ag_interface = itf,
                                           ag_createdAt = now \<rparr>
                                in (Inr (Some ag),
                                    emit (GameInstanceCreated (the targetGameId))
                                      (r2\<lparr>activeGame := Some ag\<rparr>)))))))))))"

text \<open>A sequence of \<open>registerGame\<close> calls; a call that throws leaves the registry as it was.\<close>

fun registerGames :: "registry \<Rightarrow> (game_config \<times> nat) list \<Rightarrow> registry" where
  "registerGames r [] = r"
| "registerGames r ((c, now) # cs) = registerGames (snd (registerGame r c now)) cs"

text \<open>
  The constructor registers three games. The factory of \<open>simple-ar\<close> imports a
  module; what a call of it does depends on the imported module and is a parameter.
\<close>

definition empty_registry :: registry where
  "empty_registry = \<lparr> games = [], selectedGameId = None, activeGame = None, effects = [] \<rparr>"

definition simple_ar_config :: "factory_outcome \<Rightarrow> game_config" where
  "simple_ar_config f =
     \<lparr> cfg_id = Some ''simple-ar'', cfg_name = Some ''Simple AR Test'',
       cfg_description = Some ''Place and interact with 3D objects in AR space'',
       cfg_isPlayable = Some True, cfg_players = Some ''1'', cfg_difficulty = Some ''Easy'',
       cfg_estimatedTime = Some ''5-10 min'', cfg_category = Some ''Demo'',
       cfg_createGame = Some f \<rparr>"

definition uno_ar_config :: game_config where
  "uno_ar_config =
     \<lparr> cfg_id = Some ''uno-ar'', cfg_name = Some ''UNO AR'',
       cfg_description = Some ''Classic UNO card game in augmented reality'',
       cfg_isPlayable = Some False, cfg_players = Some ''2-4'', cfg_difficulty = Some ''Medium'',
       cfg_estimatedTime = Some ''15-30 min'', cfg_category = Some ''Card Game'',
       cfg_createGame = None \<rparr>"

definition poker_ar_config :: game_config where
  "poker_ar_config =
     \<lparr> cfg_id = Some ''poker-ar'', cfg_name = Some ''Poker AR'',
       cfg_description = Some ''Texas Hold'em poker in AR environment'',
       cfg_isPlayable = Some False, cfg_players = Some ''2-8'', cfg_difficulty = Some ''Hard'',
       cfg_estimatedTime = Some ''30-60 min'', cfg_category = Some ''Card Game'',
       cfg_createGame = None \<rparr>"

definition initializeGames :: "registry \<Rightarrow> factory_outcome \<Rightarrow> nat \<Rightarrow> registry" where
  "initializeGames r f now =
     registerGames r [(simple_ar_config f, now), (uno_ar_config, now), (poker_ar_config, now)]"

definition new_registry :: "factory_outcome \<Rightarrow> nat \<Rightarrow> registry" where
  "new_registry f now = initializeGames empty_registry f now"

text \<open>
  Every key of the catalog is a non-empty string and the selection, when set, is
  a key of the catalog: \<open>registerGame\<close> refuses a falsy id and \<open>selectGame\<close>
  only stores an id it found.
\<close>

definition registry_ok :: "registry \<Rightarrow> bool" where
  "registry_ok r =
     ((\<forall>k \<in> fst ` set (games r). k \<noteq> []) \<and>
      (case selectedGameId r of None \<Rightarrow> True | Some s \<Rightarrow> s \<in> fst ` set (games r)))"

text \<open>
  \<open>createGameInstance\<close> gets past its three early returns: the id it was given, or
  else the selection, names a playable catalog entry \<open>game\<close> with factory \<open>f\<close>.
\<close>

definition resolves :: "registry \<Rightarrow> string option \<Rightarrow> string \<Rightarrow> game \<Rightarrow> factory_outcome \<Rightarrow> bool" where
  "resolves r gid t game f =
     ((if truthy gid then gid else selectedGameId r) = Some t \<and> t \<noteq> [] \<and>
      map_of (games r) t = Some game \<and> g_isPlayable game \<and> g_createGame game = Some f)"

text \<open>The factory throws, resolves to \<open>null\<close>, or its object lacks \<open>engine\<close> or \<open>interface\<close>.\<close>

definition factory_fails :: "factory_outcome \<Rightarrow> bool" where
  "factory_fails f =
     (case f of FactoryThrows err \<Rightarrow> True | FactoryNull \<Rightarrow> True
      | FactoryObject eng itf \<Rightarrow> eng = None \<or> itf = None)"

text \<open>The instance a successful \<open>createGameInstance\<close> stores.\<close>

definition new_instance :: "string \<Rightarrow> game \<Rightarrow> factory_outcome \<Rightarrow> nat \<Rightarrow> active_game" where
  "new_instance t game f now =
     (case f of
        FactoryObject eng itf \<Rightarrow>
          \<lparr> ag_gameId = t, ag_game = game, ag_engine = eng, ag_interface = itf, ag_createdAt = now \<rparr>)"

definition teardown_calls :: "string \<Rightarrow> reg_effect set" where
  "teardown_calls g = {CallEndSession g, CallInterfaceCleanup g, CallEngineCleanup g}"

text \<open>\<open>r1\<close> is \<open>r\<close> with more effects, all of them drawn from \<open>T\<close>.\<close>

definition extends_by :: "reg_effect set \<Rightarrow> registry \<Rightarrow> registry \<Rightarrow> bool" where
  "extends_by T r r1 = (\<exists>pre. set pre \<subseteq> T \<and> r1 = r\<lparr>effects := effects r @ pre\<rparr>)"

subsection \<open>A registry with an active instance\<close>

definition sample_interface :: interface_obj where
  "sample_interface = \<lparr> if_name = ''interface'', isActive = True, if_has_cleanup = True,
     endSession_throws = None, if_cleanup_throws = None \<rparr>"

definition sample_engine :: engine_obj where
  "sample_engine = \<lparr> en_name = ''engine'', en_has_cleanup = True, en_cleanup_throws = None \<rparr>"

text \<open>
  A playable game whose factory resolves to an object without \<open>interface\<close>, as
  \<open>createSimpleARGame\<close> of src/games/SimpleARGame.js does (it returns
  \<open>{ engine, ar_interface }\<close>).
\<close>

definition broken_config :: game_config where
  "broken_config =
     \<lparr> cfg_id = Some ''broken-ar'', cfg_name = Some ''Broken AR'', cfg_description = None,
       cfg_isPlayable = Some True, cfg_players = None, cfg_difficulty = None,
       cfg_estimatedTime = None, cfg_category = None,
       cfg_createGame = Some (FactoryObject (Some sample_engine) None) \<rparr>"

definition demo_registry :: registry where
  "demo_registry =
     snd (registerGame
       (snd (createGameInstance
          (new_registry (FactoryObject (Some sample_engine) (Some sample_interface)) 1)
          (Some ''simple-ar'') 2))
       broken_config 3)"

definition simple_ar_game :: game where
  "simple_ar_game =
     make_game (simple_ar_config (FactoryObject (Some sample_engine) (Some sample_interface))) 1"

definition demo_instance :: active_game where
  "demo_instance = \<lparr> ag_gameId = ''simple-ar'', ag_game = simple_ar_game,
     ag_engine = Some sample_engine, ag_interface = Some sample_interface, ag_createdAt = 2 \<rparr>"

text \<open>An interface whose \<open>cleanup\<close> throws \<open>null\<close>, and a registry holding it.\<close>

definition fragile_interface :: interface_obj where
  "fragile_interface = sample_interface\<lparr>if_cleanup_throws := Some Nullish\<rparr>"

definition fragile_game :: game where
  "fragile_game =
     make_game (simple_ar_config (FactoryObject (Some sample_engine) (Some fragile_interface))) 1"

definition fragile_instance :: active_game where
  "fragile_instance = \<lparr> ag_gameId = ''simple-ar'', ag_game = fragile_game,
     ag_engine = Some sample_engine, ag_interface = Some fragile_interface, ag_createdAt = 2 \<rparr>"

definition fragile_registry :: registry where
  "fragile_registry =
     snd (createGameInstance
            (new_registry (FactoryObject (Some sample_engine) (Some fragile_interface)) 1)
            (Some ''simple-ar'') 2)"

definition renamed_uno_config :: game_config where
  "renamed_uno_config = uno_ar_config\<lparr>cfg_name := Some ''Other''\<rparr>"

section \<open>GameEngine, the abstract base class (src/utils/GameEngine.js, second document)\<close>

text \<open>
  \<open>playerData\<close> is spread into the player object, so its own \<open>id\<close> and
  \<open>joinedAt\<close> keys matter; the other keys are carried along.
\<close>

record player_data =
  pd_id :: "string option"
  pd_joinedAt :: "nat option"
  pd_rest :: "(string \<times> string) list"

record player =
  p_id :: string
  p_joinedAt :: nat
  p_rest :: "(string \<times> string) list"

record vec3 =
  vx :: real
  vy :: real
  vz :: real

record placed_object =
  o_id :: string
  o_playerId :: string
  o_position :: vec3
  o_type :: string
  o_color :: real
  o_createdAt :: nat

record snapshot =
  s_gameId :: string
  s_gameState :: string
  s_players :: "player list option"
  s_placedObjects :: "placed_object list option"
  s_maxObjects :: "real option"

datatype payload =
    PlayerAdded string player
  | PlayerRemoved string player
  | StateChanged string string
  | ObjectPlaced placed_object nat
  | ObjectRemoved placed_object nat
  | StateRestored snapshot
  | NoData

record game_event =
  ev_gameId :: string
  ev_eventType :: string
  ev_timestamp :: nat
  ev_gameState :: string
  ev_data :: payload

text \<open>
  An observer is a callback: its identity (what \<open>Set\<close> membership and
  \<open>indexOf\<close> compare) and, for every event, what the call throws (\<open>None\<close>
  when it returns). Callbacks that call back into the engine while they are being
  notified are outside the model.
\<close>

record observer =
  obs_id :: nat
  obs_call :: "game_event \<Rightarrow> js_error option"

text \<open>
  \<open>observers\<close> is a \<open>Set\<close> in insertion order and \<open>players\<close> an array. The
  last three fields record what the engine does to the outside:
  \<open>notify_log\<close> the line that \<open>notifyObservers\<close> logs on entry (number of
  observers, event type), \<open>delivered\<close> every call of an observer with the event
  it was given, \<open>caught\<close> every error caught from an observer.
\<close>

record game_engine =
  gameId :: string
  gameState :: string
  observers :: "observer list"
  players :: "player list"
  currentPlayer :: "string option"
  gameData :: "(string \<times> string) list"
  notify_log :: "(nat \<times> string) list"
  delivered :: "(nat \<times> game_event) list"
  caught :: "(nat \<times> js_error) list"

definition new_GameEngine :: "string \<Rightarrow> game_engine" where
  "new_GameEngine gid =
     \<lparr> gameId = gid, gameState = ''initialized'', observers = [], players = [],
       currentPlayer = None, gameData = [], notify_log = [], delivered = [], caught = [] \<rparr>"

definition addObserver :: "'a game_engine_scheme \<Rightarrow> observer option \<Rightarrow> (js_error + unit) \<times> 'a game_engine_scheme" where
  "addObserver e ob =
     (case ob of
        None \<Rightarrow> (Inl (Error ''Observer must be a function''), e)
      | Some f \<Rightarrow>
          (Inr (),
           if obs_id f \<in> obs_id ` set (observers e) then e
           else e\<lparr>observers := observers e @ [f]\<rparr>))"

definition removeObserver :: "'a game_engine_scheme \<Rightarrow> nat \<Rightarrow> 'a game_engine_scheme" where
  "removeObserver e i = e\<lparr>observers := filter (\<lambda>f. obs_id f \<noteq> i) (observers e)\<rparr>"

text \<open>
  \<open>observers.forEach\<close> with its \<open>try\<close>/\<open>catch\<close>: the observer is called,
  and what it throws is caught. The \<open>catch\<close> block reads \<open>error.message\<close>
  for its log line, then calls \<open>console.error\<close>, and the loop goes on; on a
  thrown \<open>null\<close> or \<open>undefined\<close> that read throws a \<open>TypeError\<close>, which
  leaves \<open>forEach\<close> and \<open>notifyObservers\<close> with the remaining observers
  not called.
\<close>

definition call_observer :: "observer \<Rightarrow> game_event \<Rightarrow> js_error + unit" where
  "call_observer f ev = (case obs_call f ev of None \<Rightarrow> Inr () | Some err \<Rightarrow> Inl err)"

fun forEach_observer ::
  "observer list \<Rightarrow> game_event \<Rightarrow> 'a game_engine_scheme \<Rightarrow> (js_error + unit) \<times> 'a game_engine_scheme" where
  "forEach_observer [] ev e = (Inr (), e)"
| "forEach_observer (f # fs) ev e =
     (let e1 = e\<lparr>delivered := delivered e @ [(obs_id f, ev)]\<rparr> in
      case call_observer f ev of
        Inl err \<Rightarrow>
          (if err = Nullish then (Inl TypeError, e1)
           else forEach_observer fs ev (e1\<lparr>caught := caught e1 @ [(obs_id f, err)]\<rparr>))
      | Inr u \<Rightarrow> forEach_observer fs ev e1)"

definition notifyObservers ::
  "'a game_engine_scheme \<Rightarrow> string \<Rightarrow> payload \<Rightarrow> nat \<Rightarrow> (js_error + unit) \<times> 'a game_engine_scheme" where
  "notifyObservers e eventType data now =
     (let eventData = \<lparr> ev_gameId = gameId e, ev_eventType = eventType, ev_timestamp = now,
                          ev_gameState = gameState e, ev_data = data \<rparr>;
          e1 = e\<lparr>notify_log := notify_log e @ [(length (observers e), eventType)]\<rparr>
      in forEach_observer (observers e1) eventData e1)"

definition make_player :: "string \<Rightarrow> player_data \<Rightarrow> nat \<Rightarrow> player" where
  "make_player playerId playerData now =
     \<lparr> p_id = (case pd_id playerData of Some i \<Rightarrow> i | None \<Rightarrow> playerId),
       p_joinedAt = now,
       p_rest = pd_rest playerData \<rparr>"

definition addPlayer ::
  "'a game_engine_scheme \<Rightarrow> string \<Rightarrow> player_data \<Rightarrow> nat \<Rightarrow> (js_error + bool) \<times> 'a game_engine_scheme" where
  "addPlayer e playerId playerData now =
     (if find (\<lambda>p. p_id p = playerId) (players e) \<noteq> None then (Inr False, e)
      else
        (let player = make_player playerId playerData now;
             e1 = e\<lparr>players := players e @ [player]\<rparr>
         in and_then (notifyObservers e1 ''playerAdded'' (PlayerAdded playerId player) now)
              (\<lambda>u e2. (Inr True, e2))))"

definition removePlayer ::
  "'a game_engine_scheme \<Rightarrow> string \<Rightarrow> nat \<Rightarrow> (js_error + bool) \<times> 'a game_engine_scheme" where
  "removePlayer e playerId now =
     (case findIndex (\<lambda>p. p_id p = playerId) (players e) of
        None \<Rightarrow> (Inr False, e)
      | Some playerIndex \<Rightarrow>
          (let player = players e ! playerIndex;
               e1 = e\<lparr>players := splice1 (players e) playerIndex\<rparr>
           in and_then (notifyObservers e1 ''playerRemoved'' (PlayerRemoved playerId player) now)
                (\<lambda>u e2. (Inr True, e2))))"

definition setState ::
  "'a game_engine_scheme \<Rightarrow> string \<Rightarrow> nat \<Rightarrow> (js_error + unit) \<times> 'a game_engine_scheme" where
  "setState e newState now =
     (let previousState = gameState e;
          e1 = e\<lparr>gameState := newState\<rparr>
      in notifyObservers e1 ''stateChanged'' (StateChanged previousState newState) now)"

datatype expected_states = One string | Many "string list"

definition validateState :: "'a game_engine_scheme \<Rightarrow> expected_states \<Rightarrow> bool" where
  "validateState e expectedStates =
     (let states = (case expectedStates of Many ss \<Rightarrow> ss | One s \<Rightarrow> [s])
      in gameState e \<in> set states)"

definition cleanup :: "'a game_engine_scheme \<Rightarrow> nat \<Rightarrow> (js_error + unit) \<times> 'a game_engine_scheme" where
  "cleanup e now =
     (let e1 = e\<lparr>observers := []\<rparr>;
          e2 = e1\<lparr>players := []\<rparr>;
          e3 = e2\<lparr>currentPlayer := None\<rparr>;
          e4 = e3\<lparr>gameData := []\<rparr>
      in setState e4 ''cleanup'' now)"

section \<open>SimpleARGameEngine (src/games/SimpleARGame.js)\<close>

record simple_engine = game_engine +
  placedObjects :: "placed_object list"
  maxObjects :: real

definition new_SimpleARGameEngine :: simple_engine where
  "new_SimpleARGameEngine =
     \<lparr> gameId = ''simple-ar'', gameState = ''initialized'', observers = [], players = [],
       currentPlayer = None, gameData = [], notify_log = [], delivered = [], caught = [],
       placedObjects = [], maxObjects = 10 \<rparr>"

record init_config =
  ic_maxObjects :: "real option"

definition initializeGame :: "simple_engine \<Rightarrow> init_config \<Rightarrow> nat \<Rightarrow> (js_error + bool) \<times> simple_engine" where
  "initializeGame e config now =
     (let e1 = e\<lparr>maxObjects := num_or (ic_maxObjects config) 10\<rparr>;
          e2 = e1\<lparr>placedObjects := []\<rparr>
      in and_then (setState e2 ''playing'' now) (\<lambda>u e3. (Inr True, e3)))"

text \<open>
  The \<open>data\<close> argument of \<open>processAction\<close> may be \<open>undefined\<close>
  (\<open>None\<close>); reading a property of it then throws a \<open>TypeError\<close>.
  \<open>handlePlaceObject\<close> reads it after the capacity check and before it changes
  anything. \<open>handleRemoveObject\<close> reads \<open>data.objectId\<close> in the
  \<open>findIndex\<close> callback and, when the array is empty and the callback never
  runs, in the log line of the not-found branch: with \<open>data\<close> undefined it
  throws either way, before it changes anything. \<open>entropy\<close> holds what one
  call reads from \<open>Date.now()\<close> and \<open>Math.random()\<close>.
\<close>

record action_data =
  ad_position :: "vec3 option"
  ad_type :: "string option"
  ad_color :: "real option"
  ad_objectId :: "string option"

record entropy =
  now_ms :: nat
  fresh_id :: string
  random_color :: real

definition handlePlaceObject ::
  "simple_engine \<Rightarrow> string \<Rightarrow> action_data option \<Rightarrow> entropy \<Rightarrow> (js_error + bool) \<times> simple_engine" where
  "handlePlaceObject e playerId data env =
     (if real (length (placedObjects e)) \<ge> maxObjects e then (Inr False, e)
      else
        (case data of
           None \<Rightarrow> (Inl TypeError, e)
         | Some d \<Rightarrow>
             (let placedObject =
                    \<lparr> o_id = fresh_id env,
                      o_playerId = playerId,
                      o_position = (case ad_position d of Some p \<Rightarrow> p | None \<Rightarrow> \<lparr>vx = 0, vy = 0, vz = 0\<rparr>),
                      o_type = or_else (ad_type d) ''cube'',
                      o_color = num_or (ad_color d) (random_color env),
                      o_createdAt = now_ms env \<rparr>;
                  e1 = e\<lparr>placedObjects := placedObjects e @ [placedObject]\<rparr>
              in and_then
                   (notifyObservers e1 ''objectPlaced''
                      (ObjectPlaced placedObject (length (placedObjects e1))) (now_ms env))
                   (\<lambda>u e2. (Inr True, e2)))))"

definition handleRemoveObject ::
  "simple_engine \<Rightarrow> string \<Rightarrow> action_data option \<Rightarrow> entropy \<Rightarrow> (js_error + bool) \<times> simple_engine" where
  "handleRemoveObject e playerId data env =
     (case data of
        None \<Rightarrow> (Inl TypeError, e)
      | Some d \<Rightarrow>
          (case findIndex (\<lambda>obj. Some (o_id obj) = ad_objectId d) (placedObjects e) of
             None \<Rightarrow> (Inr False, e)
           | Some objectIndex \<Rightarrow>
               (let removedObject = placedObjects e ! objectIndex;
                    e1 = e\<lparr>placedObjects := splice1 (placedObjects e) objectIndex\<rparr>
                in and_then
                     (notifyObservers e1 ''objectRemoved''
                        (ObjectRemoved removedObject (length (placedObjects e1))) (now_ms env))
                     (\<lambda>u e2. (Inr True, e2)))))"

definition processAction ::
  "simple_engine \<Rightarrow> string \<Rightarrow> string \<Rightarrow> action_data option \<Rightarrow> entropy \<Rightarrow> (js_error + bool) \<times> simple_engine" where
  "processAction e playerId action data env =
     (if \<not> validateState e (Many [''playing'']) then (Inr False, e)
      else if action = ''placeObject'' then handlePlaceObject e playerId data env
      else if action = ''removeObject'' then handleRemoveObject e playerId data env
      else (Inr False, e))"

text \<open>
  The snapshot shares its arrays with the engine in the source; the model copies the
  values, which is the same as long as the engine is not changed between
  \<open>serializeState\<close> and \<open>deserializeState\<close>.
\<close>

definition serializeState :: "simple_engine \<Rightarrow> snapshot" where
  "serializeState e =
     \<lparr> s_gameId = gameId e, s_gameState = gameState e, s_players = Some (players e),
       s_placedObjects = Some (placedObjects e), s_maxObjects = Some (maxObjects e) \<rparr>"

definition deserializeState :: "simple_engine \<Rightarrow> snapshot \<Rightarrow> nat \<Rightarrow> (js_error + unit) \<times> simple_engine" where
  "deserializeState e serializedState now =
     (let e1 = e\<lparr>gameState := s_gameState serializedState\<rparr>;
          e2 = e1\<lparr>players := (case s_players serializedState of Some ps \<Rightarrow> ps | None \<Rightarrow> [])\<rparr>;
          e3 = e2\<lparr>placedObjects := (case s_placedObjects serializedState of Some os \<Rightarrow> os | None \<Rightarrow> [])\<rparr>;
          e4 = e3\<lparr>maxObjects := num_or (s_maxObjects serializedState) 10\<rparr>
      in notifyObservers e4 ''stateRestored'' (StateRestored serializedState) now)"

text \<open>A sequence of \<open>processAction\<close> calls, with the result of each.\<close>

record action_call =
  ac_playerId :: string
  ac_action :: string
  ac_data :: "action_data option"
  ac_env :: entropy

fun processActions :: "simple_engine \<Rightarrow> action_call list \<Rightarrow> (js_error + bool) list \<times> simple_engine" where
  "processActions e [] = ([], e)"
| "processActions e (c # cs) =
     (let (res, e1) = processAction e (ac_playerId c) (ac_action c) (ac_data c) (ac_env c);
          (rs, e2) = processActions e1 cs
      in (res # rs, e2))"


section \<open>GameEngine, the earlier variant (src/utils/GameEngine.js, first document)\<close>

record event_v1 =
  ev1_event :: string
  ev1_gameId :: string
  ev1_data :: payload

record observer_v1 =
  obs1_id :: nat
  obs1_call :: "event_v1 \<Rightarrow> js_error option"

record game_engine_v1 =
  gameId_v1 :: string
  state_v1 :: string
  players_v1 :: "(string \<times> player) list"
  observers_v1 :: "observer_v1 list"
  lastUpdateTime_v1 :: nat
  isRunning_v1 :: bool
  notify_log_v1 :: "(nat \<times> string) list"
  delivered_v1 :: "(nat \<times> event_v1) list"
  caught_v1 :: "(nat \<times> js_error) list"

definition new_GameEngine_v1 :: "string \<Rightarrow> game_engine_v1" where
  "new_GameEngine_v1 gid =
     \<lparr> gameId_v1 = gid, state_v1 = ''initialized'', players_v1 = [], observers_v1 = [],
       lastUpdateTime_v1 = 0, isRunning_v1 = False,
       notify_log_v1 = [], delivered_v1 = [], caught_v1 = [] \<rparr>"

definition addObserver_v1 :: "game_engine_v1 \<Rightarrow> observer_v1 option \<Rightarrow> bool \<times> game_engine_v1" where
  "addObserver_v1 e ob =
     (case ob of
        None \<Rightarrow> (False, e)
      | Some f \<Rightarrow> (True, e\<lparr>observers_v1 := observers_v1 e @ [f]\<rparr>))"

definition call_observer_v1 :: "observer_v1 \<Rightarrow> event_v1 \<Rightarrow> js_error + unit" where
  "call_observer_v1 f ev = (case obs1_call f ev of None \<Rightarrow> Inr () | Some err \<Rightarrow> Inl err)"

fun forEach_observer_v1 ::
  "observer_v1 list \<Rightarrow> event_v1 \<Rightarrow> game_engine_v1 \<Rightarrow> (js_error + unit) \<times> game_engine_v1" where
  "forEach_observer_v1 [] ev e = (Inr (), e)"
| "forEach_observer_v1 (f # fs) ev e =
     (let e1 = e\<lparr>delivered_v1 := delivered_v1 e @ [(obs1_id f, ev)]\<rparr> in
      case call_observer_v1 f ev of
        Inl err \<Rightarrow>
          (if err = Nullish then (Inl TypeError, e1)
           else forEach_observer_v1 fs ev (e1\<lparr>caught_v1 := caught_v1 e1 @ [(obs1_id f, err)]\<rparr>))
      | Inr u \<Rightarrow> forEach_observer_v1 fs ev e1)"

definition notifyObservers_v1 ::
  "game_engine_v1 \<Rightarrow> string \<Rightarrow> payload \<Rightarrow> (js_error + unit) \<times> game_engine_v1" where
  "notifyObservers_v1 e event data =
     (let e1 = e\<lparr>notify_log_v1 := notify_log_v1 e @ [(length (observers_v1 e), event)]\<rparr>
      in forEach_observer_v1 (observers_v1 e1)
           \<lparr> ev1_event = event, ev1_gameId = gameId_v1 e1, ev1_data = data \<rparr> e1)"

definition make_player_v1 :: "string \<Rightarrow> player_data \<Rightarrow> nat \<Rightarrow> player" where
  "make_player_v1 playerId playerData now =
     \<lparr> p_id = (case pd_id playerData of Some i \<Rightarrow> i | None \<Rightarrow> playerId),
       p_joinedAt = (case pd_joinedAt playerData of Some t \<Rightarrow> t | None \<Rightarrow> now),
       p_rest = pd_rest playerData \<rparr>"

definition addPlayer_v1 ::
  "game_engine_v1 \<Rightarrow> string \<Rightarrow> player_data \<Rightarrow> nat \<Rightarrow> (js_error + player) \<times> game_engine_v1" where
  "addPlayer_v1 e playerId playerData now =
     (let player = make_player_v1 playerId playerData now;
          e1 = e\<lparr>players_v1 := AList.update playerId player (players_v1 e)\<rparr>
      in and_then (notifyObservers_v1 e1 ''playerAdded'' (PlayerAdded playerId player))
           (\<lambda>u e2. (Inr player, e2)))"

definition removePlayer_v1 ::
  "game_engine_v1 \<Rightarrow> string \<Rightarrow> (js_error + bool) \<times> game_engine_v1" where
  "removePlayer_v1 e playerId =
     (case map_of (players_v1 e) playerId of
        None \<Rightarrow> (Inr False, e)
      | Some player \<Rightarrow>
          (let e1 = e\<lparr>players_v1 := AList.delete playerId (players_v1 e)\<rparr>
           in and_then (notifyObservers_v1 e1 ''playerRemoved'' (PlayerRemoved playerId player))
                (\<lambda>u e2. (Inr True, e2))))"

definition setState_v1 :: "game_engine_v1 \<Rightarrow> string \<Rightarrow> (js_error + unit) \<times> game_engine_v1" where
  "setState_v1 e newState =
     (let oldState = state_v1 e;
          e1 = e\<lparr>state_v1 := newState\<rparr>
      in notifyObservers_v1 e1 ''stateChanged'' (StateChanged oldState newState))"

definition stop_v1 :: "game_engine_v1 \<Rightarrow> (js_error + unit) \<times> game_engine_v1" where
  "stop_v1 e =
     (if \<not> isRunning_v1 e then (Inr (), e)
      else
        (let e1 = e\<lparr>isRunning_v1 := False\<rparr>
         in and_then (setState_v1 e1 ''stopped'')
              (\<lambda>u e2. notifyObservers_v1 e2 ''gameStopped'' NoData)))"

definition cleanup_v1 :: "game_engine_v1 \<Rightarrow> (js_error + unit) \<times> game_engine_v1" where
  "cleanup_v1 e =
     and_then (stop_v1 e)
       (\<lambda>u e1.
          (let e2 = e1\<lparr>observers_v1 := []\<rparr>;
               e3 = e2\<lparr>players_v1 := []\<rparr>
           in notifyObservers_v1 e3 ''cleanup'' NoData))"

section \<open>Vocabulary of the properties\<close>

text \<open>No observer in the list throws \<open>null\<close> or \<open>undefined\<close>.\<close>

definition no_nullish :: "('o \<Rightarrow> js_error option) \<Rightarrow> 'o list \<Rightarrow> bool" where
  "no_nullish c fs = (Some Nullish \<notin> c ` set fs)"

text \<open>
  What the notification loop does with a list of observers, given what the call of
  each throws: \<open>reached\<close> are the observers it calls (all of them up to and
  including the first that throws \<open>null\<close> or \<open>undefined\<close>), \<open>logged\<close>
  the errors it catches and logs, \<open>loop_result\<close> how it ends.
\<close>

fun reached :: "('o \<Rightarrow> js_error option) \<Rightarrow> 'o list \<Rightarrow> 'o list" where
  "reached c [] = []"
| "reached c (f # fs) = f # (if c f = Some Nullish then [] else reached c fs)"

fun logged :: "('o \<Rightarrow> js_error option) \<Rightarrow> 'o list \<Rightarrow> ('o \<times> js_error) list" where
  "logged c [] = []"
| "logged c (f # fs) =
     (case c f of
        None \<Rightarrow> logged c fs
      | Some err \<Rightarrow> if err = Nullish then [] else (f, err) # logged c fs)"

definition loop_result :: "('o \<Rightarrow> js_error option) \<Rightarrow> 'o list \<Rightarrow> js_error + unit" where
  "loop_result c fs = (if no_nullish c fs then Inr () else Inl TypeError)"

text \<open>The event object that \<open>notifyObservers\<close> builds.\<close>

definition event_of :: "'a game_engine_scheme \<Rightarrow> string \<Rightarrow> payload \<Rightarrow> nat \<Rightarrow> game_event" where
  "event_of e t d now =
     \<lparr> ev_gameId = gameId e, ev_eventType = t, ev_timestamp = now, ev_gameState = gameState e,
       ev_data = d \<rparr>"

definition event_of_v1 :: "game_engine_v1 \<Rightarrow> string \<Rightarrow> payload \<Rightarrow> event_v1" where
  "event_of_v1 e t d = \<lparr> ev1_event = t, ev1_gameId = gameId_v1 e, ev1_data = d \<rparr>"

text \<open>
  Between \<open>e\<close> and \<open>e'\<close> exactly one event was published: one more
  \<open>notifyObservers\<close> call, and one call of every observer of \<open>e\<close>, in order.
\<close>

definition published :: "'a game_engine_scheme \<Rightarrow> 'b game_engine_scheme \<Rightarrow> game_event \<Rightarrow> bool" where
  "published e e' ev =
     (notify_log e' = notify_log e @ [(length (observers e), ev_eventType ev)] \<and>
      delivered e' = delivered e @ map (\<lambda>f. (obs_id f, ev)) (observers e))"

definition published_v1 :: "game_engine_v1 \<Rightarrow> game_engine_v1 \<Rightarrow> event_v1 \<Rightarrow> bool" where
  "published_v1 e e' ev =
     (notify_log_v1 e' = notify_log_v1 e @ [(length (observers_v1 e), ev1_event ev)] \<and>
      delivered_v1 e' = delivered_v1 e @ map (\<lambda>f. (obs1_id f, ev)) (observers_v1 e))"

text \<open>\<open>placedObjects.length <= maxObjects\<close>.\<close>

definition within_limit :: "simple_engine \<Rightarrow> bool" where
  "within_limit e = (real (length (placedObjects e)) \<le> maxObjects e)"

text \<open>The states a \<open>SimpleARGameEngine\<close> reaches through its methods.\<close>

inductive reachable :: "simple_engine \<Rightarrow> bool" where
  reach_new: "reachable new_SimpleARGameEngine"
| reach_addObserver: "reachable e \<Longrightarrow> reachable (snd (addObserver e ob))"
| reach_removeObserver: "reachable e \<Longrightarrow> reachable (removeObserver e i)"
| reach_addPlayer: "reachable e \<Longrightarrow> reachable (snd (addPlayer e pid d now))"
| reach_removePlayer: "reachable e \<Longrightarrow> reachable (snd (removePlayer e pid now))"
| reach_setState: "reachable e \<Longrightarrow> reachable (snd (setState e s now))"
| reach_cleanup: "reachable e \<Longrightarrow> reachable (snd (cleanup e now))"
| reach_initializeGame: "reachable e \<Longrightarrow> reachable (snd (initializeGame e config now))"
| reach_processAction: "reachable e \<Longrightarrow> reachable (snd (processAction e pid a data env))"
| reach_deserializeState: "reachable e \<Longrightarrow> reachable (snd (deserializeState e snap now))"

subsection \<open>Sample engines\<close>

definition quiet_observer :: observer where
  "quiet_observer = \<lparr> obs_id = 1, obs_call = (\<lambda>ev. None) \<rparr>"

definition failing_observer :: observer where
  "failing_observer = \<lparr> obs_id = 0, obs_call = (\<lambda>ev. Some (Error ''boom'')) \<rparr>"

definition quiet_observer_v1 :: observer_v1 where
  "quiet_observer_v1 = \<lparr> obs1_id = 1, obs1_call = (\<lambda>ev. None) \<rparr>"

definition failing_observer_v1 :: observer_v1 where
  "failing_observer_v1 = \<lparr> obs1_id = 0, obs1_call = (\<lambda>ev. Some (Error ''boom'')) \<rparr>"

definition null_observer :: observer where
  "null_observer = \<lparr> obs_id = 0, obs_call = (\<lambda>ev. Some Nullish) \<rparr>"

definition null_observer_v1 :: observer_v1 where
  "null_observer_v1 = \<lparr> obs1_id = 0, obs1_call = (\<lambda>ev. Some Nullish) \<rparr>"

definition watched_engine :: simple_engine where
  "watched_engine = snd (addObserver new_SimpleARGameEngine (Some quiet_observer))"

definition watched_engine_v1 :: game_engine_v1 where
  "watched_engine_v1 =
     snd (addObserver_v1 (new_GameEngine_v1 ''simple-ar'') (Some quiet_observer_v1))"

definition two_observer_engine :: simple_engine where
  "two_observer_engine =
     snd (addObserver (snd (addObserver new_SimpleARGameEngine (Some failing_observer)))
            (Some quiet_observer))"

definition two_observer_engine_v1 :: game_engine_v1 where
  "two_observer_engine_v1 =
     snd (addObserver_v1
            (snd (addObserver_v1 (new_GameEngine_v1 ''simple-ar'') (Some failing_observer_v1)))
            (Some quiet_observer_v1))"

definition null_first_engine :: simple_engine where
  "null_first_engine =
     snd (addObserver (snd (addObserver new_SimpleARGameEngine (Some null_observer)))
            (Some quiet_observer))"

definition null_first_engine_v1 :: game_engine_v1 where
  "null_first_engine_v1 =
     snd (addObserver_v1
            (snd (addObserver_v1 (new_GameEngine_v1 ''simple-ar'') (Some null_observer_v1)))
            (Some quiet_observer_v1))"

definition no_data :: player_data where
  "no_data = \<lparr> pd_id = None, pd_joinedAt = None, pd_rest = [] \<rparr>"

definition one_player_engine :: simple_engine where
  "one_player_engine = snd (addPlayer watched_engine ''p1'' no_data 1)"

definition one_player_engine_v1 :: game_engine_v1 where
  "one_player_engine_v1 = snd (addPlayer_v1 watched_engine_v1 ''p1'' no_data 1)"

definition place_call :: action_call where
  "place_call =
     \<lparr> ac_playerId = ''local-player'', ac_action = ''placeObject'',
       ac_data = Some \<lparr> ad_position = None, ad_type = None, ad_color = None, ad_objectId = None \<rparr>,
       ac_env = \<lparr> now_ms = 9, fresh_id = ''obj_9_a'', random_color = 255 \<rparr> \<rparr>"

definition played_engine :: simple_engine where
  "played_engine =
     snd (processAction
            (snd (initializeGame one_player_engine \<lparr>ic_maxObjects = Some 1\<rparr> 2))
            (ac_playerId place_call) (ac_action place_call) (ac_data place_call)
            (ac_env place_call))"

definition one_object_config :: init_config where
  "one_object_config = \<lparr>ic_maxObjects = Some 1\<rparr>"

definition negative_config :: init_config where
  "negative_config = \<lparr>ic_maxObjects = Some (- 1)\<rparr>"

definition fractional_config :: init_config where
  "fractional_config = \<lparr>ic_maxObjects = Some (5 / 2)\<rparr>"

section \<open>Properties of the registry\<close>

subsection \<open>The catalog invariant\<close>

lemma map_of_registerGame:
  "truthy (cfg_id c) \<Longrightarrow> truthy (cfg_name c) \<Longrightarrow>
   map_of (games (snd (registerGame r c now))) =
     (map_of (games r))(the (cfg_id c) \<mapsto> make_game c now)"
  by (simp add: registerGame_def update_conv')

lemma registry_ok_empty: "registry_ok empty_registry"
  by (simp add: registry_ok_def empty_registry_def)

lemma keys_registerGame:
  "fst ` set (games (snd (registerGame r c now))) =
     (if truthy (cfg_id c) \<and> truthy (cfg_name c)
      then insert (the (cfg_id c)) (fst ` set (games r)) else fst ` set (games r))"
  by (simp add: registerGame_def dom_update)

lemma registry_ok_registerGame:
  assumes "registry_ok r"
  shows "registry_ok (snd (registerGame r c now))"
proof -
  have sel: "selectedGameId (snd (registerGame r c now)) = selectedGameId r"
    by (simp add: registerGame_def)
  have key: "truthy (cfg_id c) \<Longrightarrow> the (cfg_id c) \<noteq> []"
    by (cases "cfg_id c") (simp_all add: truthy_def)
  show ?thesis
    using assms key unfolding registry_ok_def keys_registerGame sel
    by (cases "selectedGameId r") auto
qed

lemma registry_ok_registerGames:
  "registry_ok r \<Longrightarrow> registry_ok (registerGames r cs)"
  by (induction cs arbitrary: r) (auto simp: registry_ok_registerGame)

lemma registry_ok_new: "registry_ok (new_registry f now)"
  unfolding new_registry_def initializeGames_def
  by (rule registry_ok_registerGames) (rule registry_ok_empty)

lemma registry_ok_selectGame:
  "registry_ok r \<Longrightarrow> registry_ok (snd (selectGame r i))"
  by (auto simp: registry_ok_def selectGame_def emit_def dest: map_of_SomeD
           split: option.splits intro: rev_image_eqI)

lemma registry_ok_key: "registry_ok r \<Longrightarrow> map_of (games r) i = Some g \<Longrightarrow> i \<noteq> []"
  by (auto simp: registry_ok_def dest!: map_of_SomeD)

subsection \<open>What the teardown does to the registry\<close>

lemma extends_by_refl: "extends_by T r r"
  unfolding extends_by_def by (rule exI [of _ "[]"]) simp

lemma extends_by_emit: "x \<in> T \<Longrightarrow> extends_by T r (emit x r)"
  unfolding extends_by_def by (rule exI [of _ "[x]"]) (simp add: emit_def)

lemma extends_by_trans:
  assumes "extends_by T r r1" and "extends_by T r1 r2"
  shows "extends_by T r r2"
proof -
  from assms(1) obtain p where p: "set p \<subseteq> T" "r1 = r\<lparr>effects := effects r @ p\<rparr>"
    unfolding extends_by_def by blast
  from assms(2) obtain q where q: "set q \<subseteq> T" "r2 = r1\<lparr>effects := effects r1 @ q\<rparr>"
    unfolding extends_by_def by blast
  have "set (p @ q) \<subseteq> T \<and> r2 = r\<lparr>effects := effects r @ (p @ q)\<rparr>"
    using p q by simp
  then show ?thesis unfolding extends_by_def by blast
qed

lemma extends_by_calls: "x \<in> T \<Longrightarrow> extends_by T r (snd (calls x t r))"
  by (simp add: calls_def extends_by_emit)

lemma extends_by_and_then:
  assumes "extends_by T r (snd m)"
    and "\<And>u r1. extends_by T r1 (snd (f u r1))"
  shows "extends_by T r (snd (and_then m f))"
proof (cases "fst m")
  case (Inl err)
  then show ?thesis using assms(1) by (simp add: and_then_def)
next
  case (Inr u)
  have "extends_by T (snd m) (snd (f u (snd m)))" by (rule assms(2))
  with assms(1) have "extends_by T r (snd (f u (snd m)))" by (rule extends_by_trans)
  then show ?thesis using Inr by (simp add: and_then_def)
qed

lemma teardown_step1:
  "extends_by (teardown_calls (ag_gameId ag)) r
     (snd (case ag_interface ag of
             Some i \<Rightarrow>
               if isActive i then calls (CallEndSession (ag_gameId ag)) (endSession_throws i) r
               else (Inr (), r)
           | None \<Rightarrow> (Inr (), r)))"
  by (simp add: extends_by_calls extends_by_refl teardown_calls_def split: option.splits)

lemma teardown_step2:
  "extends_by (teardown_calls (ag_gameId ag)) r
     (snd (case ag_interface ag of
             Some i \<Rightarrow>
               if if_has_cleanup i
               then calls (CallInterfaceCleanup (ag_gameId ag)) (if_cleanup_throws i) r
               else (Inr (), r)
           | None \<Rightarrow> (Inr (), r)))"
  by (simp add: extends_by_calls extends_by_refl teardown_calls_def split: option.splits)

lemma teardown_step3:
  "extends_by (teardown_calls (ag_gameId ag)) r
     (snd (case ag_engine ag of
             Some e \<Rightarrow>
               if en_has_cleanup e
               then calls (CallEngineCleanup (ag_gameId ag)) (en_cleanup_throws e) r
               else (Inr (), r)
           | None \<Rightarrow> (Inr (), r)))"
  by (simp add: extends_by_calls extends_by_refl teardown_calls_def split: option.splits)

lemma teardown_effects:
  "extends_by (teardown_calls (ag_gameId ag)) r (snd (teardown ag r))"
  unfolding teardown_def
  by (intro extends_by_and_then teardown_step1 teardown_step2 teardown_step3)

lemma cleanupActiveGame_none: "activeGame r = None \<Longrightarrow> cleanupActiveGame r = (Inr (), r)"
  by (simp add: cleanupActiveGame_def)

lemma cleanupActiveGame_some:
  assumes "activeGame r = Some old"
  shows "\<exists>pre. set pre \<subseteq> teardown_calls (ag_gameId old) \<and>
           cleanupActiveGame r =
             (case fst (teardown old r) of
                Inr u \<Rightarrow>
                  (Inr (), r\<lparr>effects := effects r @ pre @ [GameInstanceCleaned (ag_gameId old)],
                             activeGame := None\<rparr>)
              | Inl err \<Rightarrow>
                  (if err = Nullish then (Inl TypeError, r\<lparr>effects := effects r @ pre\<rparr>)
                   else (Inr (), r\<lparr>effects := effects r @ pre @ [ConsoleError]\<rparr>)))"
proof -
  from teardown_effects [of old r] obtain pre where
    pre: "set pre \<subseteq> teardown_calls (ag_gameId old)"
      "snd (teardown old r) = r\<lparr>effects := effects r @ pre\<rparr>"
    unfolding extends_by_def by blast
  have "cleanupActiveGame r =
             (case fst (teardown old r) of
                Inr u \<Rightarrow>
                  (Inr (), r\<lparr>effects := effects r @ pre @ [GameInstanceCleaned (ag_gameId old)],
                             activeGame := None\<rparr>)
              | Inl err \<Rightarrow>
                  (if err = Nullish then (Inl TypeError, r\<lparr>effects := effects r @ pre\<rparr>)
                   else (Inr (), r\<lparr>effects := effects r @ pre @ [ConsoleError]\<rparr>)))"
    using pre(2) assms
    by (cases "teardown old r"; cases "fst (teardown old r)")
       (simp_all add: cleanupActiveGame_def catch_log_def emit_def)
  with pre(1) show ?thesis by blast
qed

lemma cleanupActiveGame_catalog:
  "games (snd (cleanupActiveGame r)) = games r \<and>
   selectedGameId (snd (cleanupActiveGame r)) = selectedGameId r"
proof (cases "activeGame r")
  case None
  then show ?thesis by (simp add: cleanupActiveGame_none)
next
  case (Some old)
  from cleanupActiveGame_some [OF Some] obtain pre where
    "cleanupActiveGame r =
             (case fst (teardown old r) of
                Inr u \<Rightarrow>
                  (Inr (), r\<lparr>effects := effects r @ pre @ [GameInstanceCleaned (ag_gameId old)],
                             activeGame := None\<rparr>)
              | Inl err \<Rightarrow>
                  (if err = Nullish then (Inl TypeError, r\<lparr>effects := effects r @ pre\<rparr>)
                   else (Inr (), r\<lparr>effects := effects r @ pre @ [ConsoleError]\<rparr>)))"
    by blast
  then show ?thesis by (cases "fst (teardown old r)") simp_all
qed

lemma catch_log_catalog:
  "games (snd (catch_log err v r)) = games r \<and>
   selectedGameId (snd (catch_log err v r)) = selectedGameId r"
  by (simp add: catch_log_def emit_def)

text \<open>What the call does once it is past its early returns.\<close>

lemma createGameInstance_resolved:
  assumes "resolves r gid t game f"
  shows "createGameInstance r gid now =
           (case fst (cleanupActiveGame r) of
              Inl err \<Rightarrow> catch_log err None (snd (cleanupActiveGame r))
            | Inr u \<Rightarrow>
                (if f = FactoryThrows Nullish
                 then (Inl TypeError, emit (CallFactory t) (snd (cleanupActiveGame r)))
                 else if factory_fails f
                 then (Inr None,
                       emit ConsoleError (emit (CallFactory t) (snd (cleanupActiveGame r))))
                 else (Inr (Some (new_instance t game f now)),
                       emit (GameInstanceCreated t)
                         ((emit (CallFactory t) (snd (cleanupActiveGame r)))
                            \<lparr>activeGame := Some (new_instance t game f now)\<rparr>))))"
proof -
  have c: "(if activeGame r \<noteq> None then cleanupActiveGame r else (Inr (), r)) = cleanupActiveGame r"
    by (simp add: cleanupActiveGame_none)
  have tg: "(if truthy gid then gid else selectedGameId r) = Some t"
    using assms by (simp add: resolves_def)
  show ?thesis
    unfolding createGameInstance_def Let_def tg c using assms
    by (cases f; cases "fst (cleanupActiveGame r)")
       (auto simp: resolves_def factory_fails_def new_instance_def truthy_def catch_log_def
          split_beta)
qed

text \<open>The early returns: every call that is not past them returns \<open>null\<close> at once.\<close>

lemma createGameInstance_early:
  assumes "\<not> (\<exists>t game f. resolves r gid t game f)"
  shows "createGameInstance r gid now = (Inr None, r)"
proof -
  define tg where "tg = (if truthy gid then gid else selectedGameId r)"
  show ?thesis
  proof (cases "truthy tg")
    case False
    then show ?thesis by (simp add: createGameInstance_def Let_def tg_def)
  next
    case True
    then obtain t where t: "tg = Some t" "t \<noteq> []"
      by (cases tg) (simp_all add: truthy_def)
    show ?thesis
    proof (cases "map_of (games r) t")
      case None
      then show ?thesis using True t
        by (simp add: createGameInstance_def Let_def tg_def [symmetric])
    next
      case (Some game)
      have "\<not> g_isPlayable game \<or> g_createGame game = None"
      proof (rule ccontr)
        assume "\<not> (\<not> g_isPlayable game \<or> g_createGame game = None)"
        then obtain f where "g_isPlayable game" "g_createGame game = Some f" by auto
        with t Some have "resolves r gid t game f"
          by (simp add: resolves_def tg_def)
        with assms show False by blast
      qed
      then show ?thesis using True t Some
        by (auto simp: createGameInstance_def Let_def tg_def [symmetric])
    qed
  qed
qed

lemma createGameInstance_catalog:
  "games (snd (createGameInstance r gid now)) = games r \<and>
   selectedGameId (snd (createGameInstance r gid now)) = selectedGameId r"
proof (cases "\<exists>t game f. resolves r gid t game f")
  case False
  then show ?thesis by (simp add: createGameInstance_early)
next
  case True
  then obtain t game f where res: "resolves r gid t game f" by blast
  show ?thesis
    unfolding createGameInstance_resolved [OF res]
    by (cases "fst (cleanupActiveGame r)")
       (simp_all add: catch_log_catalog cleanupActiveGame_catalog emit_def)
qed

lemma registry_ok_cleanupActiveGame:
  "registry_ok r \<Longrightarrow> registry_ok (snd (cleanupActiveGame r))"
  by (simp add: registry_ok_def cleanupActiveGame_catalog split: option.splits)

lemma registry_ok_createGameInstance:
  "registry_ok r \<Longrightarrow> registry_ok (snd (createGameInstance r gid now))"
  by (simp add: registry_ok_def createGameInstance_catalog split: option.splits)

subsection \<open>The sample registry, evaluated\<close>

lemmas registry_defs = new_registry_def initializeGames_def registerGame_def empty_registry_def
  simple_ar_config_def uno_ar_config_def poker_ar_config_def truthy_def or_else_def
  createGameInstance_def cleanupActiveGame_def emit_def broken_config_def make_game_def
  catch_log_def

lemma demo_registry_active: "activeGame demo_registry = Some demo_instance"
  by (simp add: demo_registry_def demo_instance_def simple_ar_game_def registry_defs Let_def)

lemma demo_registry_effects:
  "effects demo_registry = [CallFactory ''simple-ar'', GameInstanceCreated ''simple-ar'']"
  by (simp add: demo_registry_def registry_defs Let_def)

lemma demo_registry_broken:
  "map_of (games demo_registry) ''broken-ar'' = Some (make_game broken_config 3)"
  by (simp add: demo_registry_def registry_defs Let_def)


lemma demo_instance_id: "ag_gameId demo_instance = ''simple-ar''"
  by (simp add: demo_instance_def)

lemma demo_teardown:
  "teardown demo_instance demo_registry =
     (Inr (), demo_registry\<lparr>effects := effects demo_registry @
        [CallEndSession ''simple-ar'', CallInterfaceCleanup ''simple-ar'',
         CallEngineCleanup ''simple-ar'']\<rparr>)"
  by (simp add: teardown_def and_then_def calls_def emit_def demo_instance_def
      sample_interface_def sample_engine_def)

lemma demo_resolves_broken:
  "resolves demo_registry (Some ''broken-ar'') ''broken-ar'' (make_game broken_config 3)
     (FactoryObject (Some sample_engine) None)"
  by (simp add: resolves_def demo_registry_broken truthy_def)
     (simp add: make_game_def broken_config_def)


lemma demo_cleanup:
  "cleanupActiveGame demo_registry =
     (Inr (), demo_registry\<lparr>activeGame := None, effects :=
        [CallFactory ''simple-ar'', GameInstanceCreated ''simple-ar'',
         CallEndSession ''simple-ar'', CallInterfaceCleanup ''simple-ar'',
         CallEngineCleanup ''simple-ar'', GameInstanceCleaned ''simple-ar'']\<rparr>)"
  by (simp add: cleanupActiveGame_def demo_registry_active demo_teardown emit_def
      demo_registry_effects demo_instance_id)

lemma demo_create_broken:
  "createGameInstance demo_registry (Some ''broken-ar'') 4 =
     (Inr None, demo_registry\<lparr>activeGame := None, effects :=
        [CallFactory ''simple-ar'', GameInstanceCreated ''simple-ar'',
         CallEndSession ''simple-ar'', CallInterfaceCleanup ''simple-ar'',
         CallEngineCleanup ''simple-ar'', GameInstanceCleaned ''simple-ar'',
         CallFactory ''broken-ar'', ConsoleError]\<rparr>)"
  by (simp add: createGameInstance_resolved [OF demo_resolves_broken] factory_fails_def
      demo_cleanup emit_def)



lemma fragile_registry_eval:
  "activeGame fragile_registry = Some fragile_instance \<and>
   effects fragile_registry = [CallFactory ''simple-ar'', GameInstanceCreated ''simple-ar''] \<and>
   map_of (games fragile_registry) ''simple-ar'' = Some fragile_game"
  by (simp add: fragile_registry_def fragile_instance_def fragile_game_def registry_defs Let_def)

lemma fragile_resolves:
  "resolves fragile_registry (Some ''simple-ar'') ''simple-ar'' fragile_game
     (FactoryObject (Some sample_engine) (Some fragile_interface))"
  by (simp add: resolves_def fragile_registry_eval truthy_def)
     (simp add: fragile_game_def make_game_def simple_ar_config_def)

lemma fragile_teardown:
  "teardown fragile_instance fragile_registry =
     (Inl Nullish, fragile_registry\<lparr>effects := effects fragile_registry @
        [CallEndSession ''simple-ar'', CallInterfaceCleanup ''simple-ar'']\<rparr>)"
  by (simp add: teardown_def and_then_def calls_def emit_def fragile_instance_def
      fragile_interface_def sample_interface_def sample_engine_def)

text \<open>
  A teardown call that throws \<open>null\<close>: \<open>cleanupActiveGame\<close> itself rejects
  with a \<open>TypeError\<close>, and \<open>createGameInstance\<close> catches that, logs it and
  resolves to \<open>null\<close> without calling the factory.
\<close>

lemma fragile_cleanup:
  "cleanupActiveGame fragile_registry =
     (Inl TypeError, fragile_registry\<lparr>effects :=
        [CallFactory ''simple-ar'', GameInstanceCreated ''simple-ar'',
         CallEndSession ''simple-ar'', CallInterfaceCleanup ''simple-ar'']\<rparr>)"
  by (simp add: cleanupActiveGame_def fragile_registry_eval fragile_teardown catch_log_def)

lemma fragile_create:
  "createGameInstance fragile_registry (Some ''simple-ar'') 3 =
     (Inr None, fragile_registry\<lparr>effects :=
        [CallFactory ''simple-ar'', GameInstanceCreated ''simple-ar'',
         CallEndSession ''simple-ar'', CallInterfaceCleanup ''simple-ar'', ConsoleError]\<rparr>)"
  by (simp add: createGameInstance_resolved [OF fragile_resolves] fragile_cleanup catch_log_def
      emit_def)

lemma new_registry_uno:
  "getGame (new_registry FactoryNull 1) ''uno-ar'' = Some (make_game uno_ar_config 1)"
  by (simp add: new_registry_def initializeGames_def registerGame_def getGame_def
      empty_registry_def simple_ar_config_def uno_ar_config_def poker_ar_config_def truthy_def)

lemma new_registry_chess: "getGame (new_registry FactoryNull 1) ''chess'' = None"
  by (simp add: new_registry_def initializeGames_def registerGame_def getGame_def
      empty_registry_def simple_ar_config_def uno_ar_config_def poker_ar_config_def truthy_def)

subsection \<open>Registration under an id that is already present\<close>

text \<open>
  Claim C1, as the code has it. \<open>registerGame\<close> has no check for an id that is
  already in the catalog: after any sequence of registrations, a call whose
  descriptor carries a present id (and a name) returns \<open>true\<close>, the entry built
  from the new descriptor replaces the one stored under that id, every entry under
  another id is retained, and the order of the catalog is unchanged.
\<close>

theorem registerGame_duplicate_replaces:
  assumes "registry_ok r0" and "r = registerGames r0 cs"
    and "getGame r i = Some old" and "cfg_id c = Some i" and "truthy (cfg_name c)"
  shows "fst (registerGame r c now) = Inr True \<and>
         getGame (snd (registerGame r c now)) i = Some (make_game c now) \<and>
         (\<forall>k. k \<noteq> i \<longrightarrow> getGame (snd (registerGame r c now)) k = getGame r k) \<and>
         map fst (games (snd (registerGame r c now))) = map fst (games r)"
proof -
  have ok: "registry_ok r" using assms(1,2) by (simp add: registry_ok_registerGames)
  have i: "i \<noteq> []" using registry_ok_key [OF ok] assms(3) by (simp add: getGame_def)
  have t: "truthy (cfg_id c)" using assms(4) i by (simp add: truthy_def)
  have mem: "i \<in> fst ` set (games r)"
    using assms(3) by (auto simp: getGame_def dest!: map_of_SomeD intro: rev_image_eqI)
  have 1: "fst (registerGame r c now) = Inr True"
    using t assms(5) by (simp add: registerGame_def)
  have 2: "map_of (games (snd (registerGame r c now))) = (map_of (games r))(i \<mapsto> make_game c now)"
    using map_of_registerGame [OF t assms(5)] assms(4) by simp
  have 3: "map fst (games (snd (registerGame r c now))) = map fst (games r)"
    using t assms(4,5) mem by (simp add: registerGame_def update_keys)
  show ?thesis using 1 2 3 by (simp add: getGame_def)
qed

theorem registerGame_duplicate_replaces_witness:
  "registry_ok empty_registry \<and>
   getGame (registerGames empty_registry [(uno_ar_config, 1)]) ''uno-ar''
     = Some (make_game uno_ar_config 1) \<and>
   cfg_id renamed_uno_config = Some ''uno-ar'' \<and>
   truthy (cfg_name renamed_uno_config) \<and>
   fst (registerGame (registerGames empty_registry [(uno_ar_config, 1)]) renamed_uno_config 2)
     = Inr True \<and>
   getGame (snd (registerGame (registerGames empty_registry [(uno_ar_config, 1)])
                   renamed_uno_config 2)) ''uno-ar''
     = Some (make_game renamed_uno_config 2)"
proof -
  have a: "getGame (registerGames empty_registry [(uno_ar_config, 1)]) ''uno-ar''
             = Some (make_game uno_ar_config 1)"
    by (simp add: getGame_def registerGame_def empty_registry_def uno_ar_config_def truthy_def)
  have b: "cfg_id renamed_uno_config = Some ''uno-ar''"
    by (simp add: renamed_uno_config_def uno_ar_config_def)
  have c: "truthy (cfg_name renamed_uno_config)"
    by (simp add: renamed_uno_config_def truthy_def)
  show ?thesis
    using registerGame_duplicate_replaces [OF registry_ok_empty refl a b c, of 2]
      a b c registry_ok_empty
    by simp
qed

text \<open>
  Claim C1 as stated fails: in a new registry \<open>uno-ar\<close> is present, a second
  registration under \<open>uno-ar\<close> returns \<open>true\<close>, and the entry stored under that
  id afterwards is the new one, with another name.
\<close>

theorem registerGame_duplicate_counterexample:
  "getGame (new_registry FactoryNull 1) ''uno-ar'' = Some (make_game uno_ar_config 1) \<and>
   fst (registerGame (new_registry FactoryNull 1) renamed_uno_config 2) = Inr True \<and>
   getGame (snd (registerGame (new_registry FactoryNull 1) renamed_uno_config 2)) ''uno-ar''
     = Some (make_game renamed_uno_config 2) \<and>
   g_name (make_game uno_ar_config 1) = ''UNO AR'' \<and>
   g_name (make_game renamed_uno_config 2) = ''Other''"
  by (simp add: new_registry_def initializeGames_def registerGame_def getGame_def
      empty_registry_def simple_ar_config_def uno_ar_config_def poker_ar_config_def
      renamed_uno_config_def truthy_def make_game_def)

subsection \<open>Selection\<close>

text \<open>
  Claim C6. In a registry whose catalog keys are non-empty (every registry built by
  the operations above), \<open>selectGame\<close> on a registered id returns \<open>true\<close> and
  \<open>getSelectedGame\<close> then returns the descriptor stored under that id;
  \<open>selectGame\<close> on an id that is not in the catalog returns \<open>false\<close> and leaves
  the selected id, and with it \<open>getSelectedGame\<close>, as they were.
\<close>

theorem selectGame_getSelectedGame:
  assumes "registry_ok r"
  shows "(\<forall>g. getGame r i = Some g \<longrightarrow>
            fst (selectGame r i) = True \<and>
            selectedGameId (snd (selectGame r i)) = Some i \<and>
            getSelectedGame (snd (selectGame r i)) = Some g) \<and>
         (getGame r i = None \<longrightarrow>
            fst (selectGame r i) = False \<and>
            selectedGameId (snd (selectGame r i)) = selectedGameId r \<and>
            getSelectedGame (snd (selectGame r i)) = getSelectedGame r)"
proof -
  have "getGame r i = Some g \<Longrightarrow>
            fst (selectGame r i) = True \<and>
            selectedGameId (snd (selectGame r i)) = Some i \<and>
            getSelectedGame (snd (selectGame r i)) = Some g" for g
    using registry_ok_key [OF assms, of i g]
    by (simp add: getGame_def selectGame_def getSelectedGame_def emit_def truthy_def)
  moreover have "getGame r i = None \<Longrightarrow> selectGame r i = (False, r)"
    by (simp add: getGame_def selectGame_def)
  ultimately show ?thesis by simp
qed

theorem selectGame_getSelectedGame_witness:
  "registry_ok (new_registry FactoryNull 1) \<and>
   getGame (new_registry FactoryNull 1) ''uno-ar'' = Some (make_game uno_ar_config 1) \<and>
   fst (selectGame (new_registry FactoryNull 1) ''uno-ar'') = True \<and>
   getSelectedGame (snd (selectGame (new_registry FactoryNull 1) ''uno-ar''))
     = Some (make_game uno_ar_config 1) \<and>
   getGame (new_registry FactoryNull 1) ''chess'' = None \<and>
   fst (selectGame (new_registry FactoryNull 1) ''chess'') = False"
  using selectGame_getSelectedGame [OF registry_ok_new, of FactoryNull 1 "''uno-ar''"]
    selectGame_getSelectedGame [OF registry_ok_new, of FactoryNull 1 "''chess''"]
    new_registry_uno new_registry_chess registry_ok_new [of FactoryNull 1]
  by simp

subsection \<open>Creating an instance while one is active\<close>




subsection \<open>A creation that fails\<close>

text \<open>
  Claim C7, as the code has it. When the call is past its early returns and the
  factory throws a value other than \<open>null\<close> or \<open>undefined\<close>, resolves to
  \<open>null\<close>, or resolves to an object without \<open>engine\<close> or \<open>interface\<close>,
  the call resolves to \<open>null\<close> and stores no new instance; the catalog and the
  selection are unchanged. Nothing is rolled back. With no instance active before,
  the registry is as it was but for the factory call and the logged error. An
  instance that was active has been through \<open>cleanupActiveGame\<close> before the
  factory ran and is not restored: its slot is empty afterwards, or still holds it
  when one of its teardown calls threw.
\<close>

theorem createGameInstance_failure_state:
  assumes "resolves r gid t game f" and "factory_fails f" and "f \<noteq> FactoryThrows Nullish"
  shows "fst (createGameInstance r gid now) = Inr None \<and>
         (activeGame r = None \<longrightarrow>
            snd (createGameInstance r gid now) =
              r\<lparr>effects := effects r @ [CallFactory t, ConsoleError]\<rparr>) \<and>
         (\<forall>old. activeGame r = Some old \<longrightarrow>
            activeGame (snd (createGameInstance r gid now)) =
              (if isl (fst (teardown old r)) then Some old else None) \<and>
            effects (snd (createGameInstance r gid now)) =
              effects (snd (cleanupActiveGame r)) @
                (if fst (teardown old r) = Inl Nullish then [ConsoleError]
                 else [CallFactory t, ConsoleError])) \<and>
         games (snd (createGameInstance r gid now)) = games r \<and>
         selectedGameId (snd (createGameInstance r gid now)) = selectedGameId r"
proof -
  note res = createGameInstance_resolved [OF assms(1), of now]
  have none: "snd (createGameInstance r gid now) =
              r\<lparr>effects := effects r @ [CallFactory t, ConsoleError]\<rparr> \<and>
              fst (createGameInstance r gid now) = Inr None"
    if "activeGame r = None"
    using assms(2,3) by (simp add: res cleanupActiveGame_none [OF that] emit_def)
  have some: "activeGame (snd (createGameInstance r gid now)) =
              (if isl (fst (teardown old r)) then Some old else None) \<and>
            effects (snd (createGameInstance r gid now)) =
              effects (snd (cleanupActiveGame r)) @
                (if fst (teardown old r) = Inl Nullish then [ConsoleError]
                 else [CallFactory t, ConsoleError]) \<and>
            fst (createGameInstance r gid now) = Inr None"
    if "activeGame r = Some old" for old
  proof -
    from cleanupActiveGame_some [OF that] obtain pre where
      pre: "cleanupActiveGame r =
             (case fst (teardown old r) of
                Inr u \<Rightarrow>
                  (Inr (), r\<lparr>effects := effects r @ pre @ [GameInstanceCleaned (ag_gameId old)],
                             activeGame := None\<rparr>)
              | Inl err \<Rightarrow>
                  (if err = Nullish then (Inl TypeError, r\<lparr>effects := effects r @ pre\<rparr>)
                   else (Inr (), r\<lparr>effects := effects r @ pre @ [ConsoleError]\<rparr>)))"
      by blast
    show ?thesis
      using assms(2,3) that
      by (cases "fst (teardown old r)")
         (simp_all add: res pre emit_def catch_log_def)
  qed
  show ?thesis
    using none some createGameInstance_catalog [of r gid now]
    by (cases "activeGame r") simp_all
qed

theorem createGameInstance_failure_state_witness:
  "resolves demo_registry (Some ''broken-ar'') ''broken-ar'' (make_game broken_config 3)
     (FactoryObject (Some sample_engine) None) \<and>
   factory_fails (FactoryObject (Some sample_engine) None) \<and>
   FactoryObject (Some sample_engine) None \<noteq> FactoryThrows Nullish \<and>
   fst (createGameInstance demo_registry (Some ''broken-ar'') 4) = Inr None \<and>
   activeGame (snd (createGameInstance demo_registry (Some ''broken-ar'') 4)) = None \<and>
   games (snd (createGameInstance demo_registry (Some ''broken-ar'') 4)) = games demo_registry"
proof -
  have f: "factory_fails (FactoryObject (Some sample_engine) None)"
    by (simp add: factory_fails_def)
  have n: "FactoryObject (Some sample_engine) None \<noteq> FactoryThrows Nullish"
    by simp
  show ?thesis
    using createGameInstance_failure_state [OF demo_resolves_broken f n, of 4]
      demo_resolves_broken f
    by (auto simp: demo_registry_active demo_teardown)
qed

text \<open>
  Claim C7 as stated fails in its last part: the instance state is not rolled back.
  The registry held an active instance before the failed attempt and holds none
  after it.
\<close>

theorem createGameInstance_no_rollback_counterexample:
  "activeGame demo_registry = Some demo_instance \<and>
   factory_fails (FactoryObject (Some sample_engine) None) \<and>
   g_createGame (make_game broken_config 3) = Some (FactoryObject (Some sample_engine) None) \<and>
   fst (createGameInstance demo_registry (Some ''broken-ar'') 4) = Inr None \<and>
   activeGame (snd (createGameInstance demo_registry (Some ''broken-ar'') 4)) = None"
  by (simp add: demo_create_broken demo_registry_active factory_fails_def make_game_def
      broken_config_def)

section \<open>Properties of the engines\<close>

subsection \<open>What a publish does\<close>

lemma and_then_value:
  "and_then m (\<lambda>u s. (Inr v, s)) =
     ((case fst m of Inl err \<Rightarrow> Inl err | Inr a \<Rightarrow> Inr v), snd m)"
  by (cases "fst m") (simp_all add: and_then_def)

lemma no_nullish_Cons:
  "no_nullish c (f # fs) \<longleftrightarrow> c f \<noteq> Some Nullish \<and> no_nullish c fs"
  by (auto simp: no_nullish_def)

lemma no_nullish_Nil: "no_nullish c []"
  by (simp add: no_nullish_def)

lemma reached_all: "no_nullish c fs \<Longrightarrow> reached c fs = fs"
  by (induction fs) (simp_all add: no_nullish_Cons)

lemma reached_first:
  "no_nullish c fs1 \<Longrightarrow> c f = Some Nullish \<Longrightarrow> reached c (fs1 @ f # fs2) = fs1 @ [f]"
  by (induction fs1) (simp_all add: no_nullish_Cons)

lemma no_nullish_append:
  "c f = Some Nullish \<Longrightarrow> \<not> no_nullish c (fs1 @ f # fs2)"
  by (auto simp: no_nullish_def image_iff)

lemma logged_all:
  "no_nullish c fs \<Longrightarrow> map fst (logged c fs) = filter (\<lambda>f. c f \<noteq> None) fs"
  by (induction fs) (auto simp: no_nullish_Cons split: option.splits)

lemma forEach_observer_closed:
  "forEach_observer fs ev e =
     (loop_result (\<lambda>f. obs_call f ev) fs,
      e\<lparr>delivered := delivered e @ map (\<lambda>f. (obs_id f, ev)) (reached (\<lambda>f. obs_call f ev) fs),
        caught := caught e @ map (\<lambda>x. (obs_id (fst x), snd x)) (logged (\<lambda>f. obs_call f ev) fs)\<rparr>)"
proof (induction fs arbitrary: e)
  case Nil
  show ?case by (simp add: loop_result_def no_nullish_Nil)
next
  case (Cons f fs)
  show ?case
  proof (cases "obs_call f ev")
    case None
    then show ?thesis
      by (simp add: call_observer_def Let_def Cons.IH loop_result_def no_nullish_Cons)
  next
    case (Some err)
    then show ?thesis
      by (cases "err = Nullish")
         (simp_all add: call_observer_def Let_def Cons.IH loop_result_def no_nullish_Cons)
  qed
qed

lemma notifyObservers_closed:
  "notifyObservers e t d now =
     (loop_result (\<lambda>f. obs_call f (event_of e t d now)) (observers e),
      e\<lparr>notify_log := notify_log e @ [(length (observers e), t)],
        delivered := delivered e @
          map (\<lambda>f. (obs_id f, event_of e t d now))
            (reached (\<lambda>f. obs_call f (event_of e t d now)) (observers e)),
        caught := caught e @
          map (\<lambda>x. (obs_id (fst x), snd x))
            (logged (\<lambda>f. obs_call f (event_of e t d now)) (observers e))\<rparr>)"
  by (simp add: notifyObservers_def Let_def forEach_observer_closed event_of_def)

lemma forEach_observer_v1_closed:
  "forEach_observer_v1 fs ev e =
     (loop_result (\<lambda>f. obs1_call f ev) fs,
      e\<lparr>delivered_v1 := delivered_v1 e @
          map (\<lambda>f. (obs1_id f, ev)) (reached (\<lambda>f. obs1_call f ev) fs),
        caught_v1 := caught_v1 e @
          map (\<lambda>x. (obs1_id (fst x), snd x)) (logged (\<lambda>f. obs1_call f ev) fs)\<rparr>)"
proof (induction fs arbitrary: e)
  case Nil
  show ?case by (simp add: loop_result_def no_nullish_Nil)
next
  case (Cons f fs)
  show ?case
  proof (cases "obs1_call f ev")
    case None
    then show ?thesis
      by (simp add: call_observer_v1_def Let_def Cons.IH loop_result_def no_nullish_Cons)
  next
    case (Some err)
    then show ?thesis
      by (cases "err = Nullish")
         (simp_all add: call_observer_v1_def Let_def Cons.IH loop_result_def no_nullish_Cons)
  qed
qed

lemma notifyObservers_v1_closed:
  "notifyObservers_v1 e t d =
     (loop_result (\<lambda>f. obs1_call f (event_of_v1 e t d)) (observers_v1 e),
      e\<lparr>notify_log_v1 := notify_log_v1 e @ [(length (observers_v1 e), t)],
        delivered_v1 := delivered_v1 e @
          map (\<lambda>f. (obs1_id f, event_of_v1 e t d))
            (reached (\<lambda>f. obs1_call f (event_of_v1 e t d)) (observers_v1 e)),
        caught_v1 := caught_v1 e @
          map (\<lambda>x. (obs1_id (fst x), snd x))
            (logged (\<lambda>f. obs1_call f (event_of_v1 e t d)) (observers_v1 e))\<rparr>)"
  by (simp add: notifyObservers_v1_def Let_def forEach_observer_v1_closed event_of_v1_def)

lemma setState_closed:
  "setState e s now =
     notifyObservers (e\<lparr>gameState := s\<rparr>) ''stateChanged'' (StateChanged (gameState e) s) now"
  by (simp add: setState_def Let_def)

lemma cleanup_closed:
  "cleanup e now =
     (Inr (), e\<lparr>observers := [], players := [], currentPlayer := None, gameData := [],
                gameState := ''cleanup'',
                notify_log := notify_log e @ [(0, ''stateChanged'')]\<rparr>)"
  by (simp add: cleanup_def Let_def setState_closed notifyObservers_closed loop_result_def
      no_nullish_Nil)

lemma stop_v1_idle: "\<not> isRunning_v1 e \<Longrightarrow> stop_v1 e = (Inr (), e)"
  by (simp add: stop_v1_def)

lemma cleanup_v1_closed:
  "cleanup_v1 e =
     (case fst (stop_v1 e) of
        Inl err \<Rightarrow> stop_v1 e
      | Inr u \<Rightarrow>
          (Inr (), (snd (stop_v1 e))\<lparr>observers_v1 := [], players_v1 := [],
                notify_log_v1 := notify_log_v1 (snd (stop_v1 e)) @ [(0, ''cleanup'')]\<rparr>))"
  by (cases "stop_v1 e"; cases "fst (stop_v1 e)")
     (simp_all add: cleanup_v1_def and_then_def Let_def notifyObservers_v1_closed
        loop_result_def no_nullish_Nil)

subsection \<open>The sample engines, evaluated\<close>

lemma watched_engine_observers: "observers watched_engine = [quiet_observer]"
  by (simp add: watched_engine_def addObserver_def new_SimpleARGameEngine_def)

lemma watched_engine_v1_eval:
  "observers_v1 watched_engine_v1 = [quiet_observer_v1] \<and>
   stop_v1 watched_engine_v1 = (Inr (), watched_engine_v1) \<and>
   delivered_v1 watched_engine_v1 = [] \<and> notify_log_v1 watched_engine_v1 = []"
  by (simp add: watched_engine_v1_def addObserver_v1_def new_GameEngine_v1_def stop_v1_def)

lemma two_observer_engine_eval:
  "observers two_observer_engine = [failing_observer, quiet_observer] \<and>
   delivered two_observer_engine = [] \<and> caught two_observer_engine = []"
  by (simp add: two_observer_engine_def addObserver_def new_SimpleARGameEngine_def
      failing_observer_def quiet_observer_def)

lemma null_first_engine_eval:
  "observers null_first_engine = [null_observer, quiet_observer] \<and>
   delivered null_first_engine = [] \<and> caught null_first_engine = []"
  by (simp add: null_first_engine_def addObserver_def new_SimpleARGameEngine_def
      null_observer_def quiet_observer_def)

lemma null_first_engine_v1_eval:
  "observers_v1 null_first_engine_v1 = [null_observer_v1, quiet_observer_v1] \<and>
   delivered_v1 null_first_engine_v1 = []"
  by (simp add: null_first_engine_v1_def addObserver_v1_def new_GameEngine_v1_def)

lemma one_player_engine_players:
  "players one_player_engine = [\<lparr>p_id = ''p1'', p_joinedAt = 1, p_rest = []\<rparr>]"
  by (simp add: one_player_engine_def watched_engine_def addObserver_def addPlayer_def
      new_SimpleARGameEngine_def no_data_def make_player_def Let_def and_then_value
      notifyObservers_closed)

lemma one_player_engine_observers: "observers one_player_engine = [quiet_observer]"
  by (simp add: one_player_engine_def watched_engine_def addObserver_def addPlayer_def
      new_SimpleARGameEngine_def Let_def and_then_value notifyObservers_closed)

lemma one_player_engine_v1_eval:
  "map_of (players_v1 one_player_engine_v1) ''p2'' = None \<and>
   observers_v1 one_player_engine_v1 = [quiet_observer_v1]"
  by (simp add: one_player_engine_v1_def watched_engine_v1_def addObserver_v1_def
      addPlayer_v1_def new_GameEngine_v1_def Let_def and_then_value notifyObservers_v1_closed)

lemma quiet_no_nullish: "no_nullish (\<lambda>f. obs_call f ev) [quiet_observer]"
  by (simp add: no_nullish_def quiet_observer_def)

lemma quiet_v1_no_nullish: "no_nullish (\<lambda>f. obs1_call f ev) [quiet_observer_v1]"
  by (simp add: no_nullish_def quiet_observer_v1_def)

lemma reachable_played: "reachable played_engine"
  unfolding played_engine_def one_player_engine_def watched_engine_def
  by (intro reachable.intros)

lemma played_engine_eval:
  "placedObjects played_engine =
     [\<lparr>o_id = ''obj_9_a'', o_playerId = ''local-player'',
       o_position = \<lparr>vx = 0, vy = 0, vz = 0\<rparr>,
       o_type = ''cube'', o_color = 255, o_createdAt = 9\<rparr>] \<and>
   maxObjects played_engine = 1 \<and> gameState played_engine = ''playing'' \<and>
   players played_engine = [\<lparr>p_id = ''p1'', p_joinedAt = 1, p_rest = []\<rparr>]"
  by (simp add: played_engine_def one_player_engine_def watched_engine_def addObserver_def
      addPlayer_def new_SimpleARGameEngine_def no_data_def make_player_def Let_def
      and_then_value notifyObservers_closed initializeGame_def setState_closed
      processAction_def validateState_def handlePlaceObject_def place_call_def num_or_def
      or_else_def truthy_def)

lemma place_twice:
  "fst (processActions (snd (initializeGame new_SimpleARGameEngine one_object_config 2))
          [place_call, place_call]) = [Inr True, Inr False]"
  by (simp add: new_SimpleARGameEngine_def Let_def and_then_value one_object_config_def
      notifyObservers_closed initializeGame_def setState_closed processAction_def
      validateState_def handlePlaceObject_def place_call_def num_or_def or_else_def truthy_def
      loop_result_def no_nullish_Nil)

lemma place_thrice:
  "fst (processActions (snd (initializeGame new_SimpleARGameEngine fractional_config 2))
          [place_call, place_call, place_call]) = [Inr True, Inr True, Inr True] \<and>
   length (placedObjects (snd (processActions
      (snd (initializeGame new_SimpleARGameEngine fractional_config 2))
      [place_call, place_call, place_call]))) = 3 \<and>
   maxObjects (snd (processActions
      (snd (initializeGame new_SimpleARGameEngine fractional_config 2))
      [place_call, place_call, place_call])) = 5 / 2"
  by (simp add: new_SimpleARGameEngine_def Let_def and_then_value fractional_config_def
      notifyObservers_closed initializeGame_def setState_closed processAction_def
      validateState_def handlePlaceObject_def place_call_def num_or_def or_else_def truthy_def
      loop_result_def no_nullish_Nil)

subsection \<open>Observer isolation\<close>

text \<open>
  Claim C4 does not hold of the code. Both variants of \<open>notifyObservers\<close> wrap
  each observer call in \<open>try\<close>/\<open>catch\<close>, but the \<open>catch\<close> block reads
  \<open>error.message\<close>. As long as no observer throws \<open>null\<close> or
  \<open>undefined\<close> on the event, the publish returns normally, every subscribed
  observer is called once with the event, in subscription order, and the errors of
  the throwing observers are caught and logged. When an observer throws \<open>null\<close>
  or \<open>undefined\<close>, the publish itself throws a \<open>TypeError\<close> to the
  publisher, and the observers subscribed after the first such observer are not
  called.
\<close>

theorem notifyObservers_isolation:
  "(no_nullish (\<lambda>f. obs_call f (event_of e t d now)) (observers e) \<longrightarrow>
      fst (notifyObservers e t d now) = Inr () \<and>
      published e (snd (notifyObservers e t d now)) (event_of e t d now) \<and>
      map fst (drop (length (caught e)) (caught (snd (notifyObservers e t d now)))) =
        map obs_id (filter (\<lambda>f. obs_call f (event_of e t d now) \<noteq> None) (observers e))) \<and>
   (\<forall>fs1 f fs2.
      observers e = fs1 @ f # fs2 \<and> obs_call f (event_of e t d now) = Some Nullish \<and>
      no_nullish (\<lambda>f. obs_call f (event_of e t d now)) fs1 \<longrightarrow>
      fst (notifyObservers e t d now) = Inl TypeError \<and>
      delivered (snd (notifyObservers e t d now)) =
        delivered e @ map (\<lambda>g. (obs_id g, event_of e t d now)) (fs1 @ [f])) \<and>
   (no_nullish (\<lambda>f. obs1_call f (event_of_v1 e1 t d)) (observers_v1 e1) \<longrightarrow>
      fst (notifyObservers_v1 e1 t d) = Inr () \<and>
      published_v1 e1 (snd (notifyObservers_v1 e1 t d)) (event_of_v1 e1 t d)) \<and>
   (\<forall>fs1 f fs2.
      observers_v1 e1 = fs1 @ f # fs2 \<and> obs1_call f (event_of_v1 e1 t d) = Some Nullish \<and>
      no_nullish (\<lambda>f. obs1_call f (event_of_v1 e1 t d)) fs1 \<longrightarrow>
      fst (notifyObservers_v1 e1 t d) = Inl TypeError \<and>
      delivered_v1 (snd (notifyObservers_v1 e1 t d)) =
        delivered_v1 e1 @ map (\<lambda>g. (obs1_id g, event_of_v1 e1 t d)) (fs1 @ [f]))"
proof -
  have a: "fst (notifyObservers e t d now) = Inr () \<and>
      published e (snd (notifyObservers e t d now)) (event_of e t d now) \<and>
      map fst (drop (length (caught e)) (caught (snd (notifyObservers e t d now)))) =
        map obs_id (filter (\<lambda>f. obs_call f (event_of e t d now) \<noteq> None) (observers e))"
    if "no_nullish (\<lambda>f. obs_call f (event_of e t d now)) (observers e)"
  proof -
    have lg: "map fst (map (\<lambda>x. (obs_id (fst x), snd x))
                (logged (\<lambda>f. obs_call f (event_of e t d now)) (observers e))) =
          map obs_id (map fst (logged (\<lambda>f. obs_call f (event_of e t d now)) (observers e)))"
      by (simp add: comp_def)
    have 1: "fst (notifyObservers e t d now) = Inr () \<and>
      published e (snd (notifyObservers e t d now)) (event_of e t d now)"
      using that
      by (simp add: notifyObservers_closed loop_result_def published_def reached_all
          event_of_def)
    have 2: "map fst (drop (length (caught e)) (caught (snd (notifyObservers e t d now)))) =
        map obs_id (filter (\<lambda>f. obs_call f (event_of e t d now) \<noteq> None) (observers e))"
    proof -
      have "drop (length (caught e)) (caught (snd (notifyObservers e t d now))) =
              map (\<lambda>x. (obs_id (fst x), snd x))
                (logged (\<lambda>f. obs_call f (event_of e t d now)) (observers e))"
        by (simp add: notifyObservers_closed)
      then show ?thesis
        by (simp only: lg logged_all [OF that])
    qed
    show ?thesis using 1 2 by simp
  qed
  have b: "fst (notifyObservers e t d now) = Inl TypeError \<and>
      delivered (snd (notifyObservers e t d now)) =
        delivered e @ map (\<lambda>g. (obs_id g, event_of e t d now)) (fs1 @ [f])"
    if "observers e = fs1 @ f # fs2" "obs_call f (event_of e t d now) = Some Nullish"
      "no_nullish (\<lambda>f. obs_call f (event_of e t d now)) fs1" for fs1 f fs2
    using that reached_first [of "\<lambda>f. obs_call f (event_of e t d now)" fs1 f fs2]
      no_nullish_append [of "\<lambda>f. obs_call f (event_of e t d now)" f fs1 fs2]
    by (simp add: notifyObservers_closed loop_result_def)
  have c: "fst (notifyObservers_v1 e1 t d) = Inr () \<and>
      published_v1 e1 (snd (notifyObservers_v1 e1 t d)) (event_of_v1 e1 t d)"
    if "no_nullish (\<lambda>f. obs1_call f (event_of_v1 e1 t d)) (observers_v1 e1)"
    using that
    by (simp add: notifyObservers_v1_closed loop_result_def published_v1_def reached_all
        event_of_v1_def)
  have d: "fst (notifyObservers_v1 e1 t d) = Inl TypeError \<and>
      delivered_v1 (snd (notifyObservers_v1 e1 t d)) =
        delivered_v1 e1 @ map (\<lambda>g. (obs1_id g, event_of_v1 e1 t d)) (fs1 @ [f])"
    if "observers_v1 e1 = fs1 @ f # fs2" "obs1_call f (event_of_v1 e1 t d) = Some Nullish"
      "no_nullish (\<lambda>f. obs1_call f (event_of_v1 e1 t d)) fs1" for fs1 f fs2
    using that reached_first [of "\<lambda>f. obs1_call f (event_of_v1 e1 t d)" fs1 f fs2]
      no_nullish_append [of "\<lambda>f. obs1_call f (event_of_v1 e1 t d)" f fs1 fs2]
    by (simp add: notifyObservers_v1_closed loop_result_def)
  show ?thesis using a b c d by blast
qed

theorem notifyObservers_isolation_witness:
  "observers null_first_engine = [] @ null_observer # [quiet_observer] \<and>
   obs_call null_observer (event_of null_first_engine ''ping'' NoData 3) = Some Nullish \<and>
   no_nullish (\<lambda>f. obs_call f (event_of null_first_engine ''ping'' NoData 3)) [] \<and>
   fst (notifyObservers null_first_engine ''ping'' NoData 3) = Inl TypeError \<and>
   delivered (snd (notifyObservers null_first_engine ''ping'' NoData 3)) =
     [(0, event_of null_first_engine ''ping'' NoData 3)] \<and>
   observers_v1 null_first_engine_v1 = [] @ null_observer_v1 # [quiet_observer_v1] \<and>
   fst (notifyObservers_v1 null_first_engine_v1 ''ping'' NoData) = Inl TypeError \<and>
   delivered_v1 (snd (notifyObservers_v1 null_first_engine_v1 ''ping'' NoData)) =
     [(0, event_of_v1 null_first_engine_v1 ''ping'' NoData)] \<and>
   observers two_observer_engine = [failing_observer, quiet_observer] \<and>
   no_nullish (\<lambda>f. obs_call f (event_of two_observer_engine ''ping'' NoData 3))
     (observers two_observer_engine) \<and>
   fst (notifyObservers two_observer_engine ''ping'' NoData 3) = Inr () \<and>
   delivered (snd (notifyObservers two_observer_engine ''ping'' NoData 3)) =
     [(0, event_of two_observer_engine ''ping'' NoData 3),
      (1, event_of two_observer_engine ''ping'' NoData 3)] \<and>
   map fst (caught (snd (notifyObservers two_observer_engine ''ping'' NoData 3))) = [0]"
proof -
  have n0: "no_nullish (\<lambda>f. obs_call f (event_of null_first_engine ''ping'' NoData 3)) []"
    by (rule no_nullish_Nil)
  have n1: "no_nullish (\<lambda>f. obs1_call f (event_of_v1 null_first_engine_v1 ''ping'' NoData)) []"
    by (rule no_nullish_Nil)
  have o: "observers null_first_engine = [] @ null_observer # [quiet_observer]"
    by (simp add: null_first_engine_eval)
  have o1: "observers_v1 null_first_engine_v1 = [] @ null_observer_v1 # [quiet_observer_v1]"
    by (simp add: null_first_engine_v1_eval)
  have c: "obs_call null_observer (event_of null_first_engine ''ping'' NoData 3) = Some Nullish"
    by (simp add: null_observer_def)
  have c1: "obs1_call null_observer_v1 (event_of_v1 null_first_engine_v1 ''ping'' NoData)
              = Some Nullish"
    by (simp add: null_observer_v1_def)
  have q: "no_nullish (\<lambda>f. obs_call f (event_of two_observer_engine ''ping'' NoData 3))
     (observers two_observer_engine)"
    by (simp add: two_observer_engine_eval no_nullish_def failing_observer_def
        quiet_observer_def)
  note thm1 = notifyObservers_isolation
      [of null_first_engine "''ping''" NoData 3 null_first_engine_v1]
  note thm2 = notifyObservers_isolation
      [of two_observer_engine "''ping''" NoData 3 null_first_engine_v1]
  have 1: "fst (notifyObservers null_first_engine ''ping'' NoData 3) = Inl TypeError \<and>
      delivered (snd (notifyObservers null_first_engine ''ping'' NoData 3)) =
        delivered null_first_engine @
          map (\<lambda>g. (obs_id g, event_of null_first_engine ''ping'' NoData 3)) ([] @ [null_observer])"
    using thm1 o c n0 by blast
  have 2: "fst (notifyObservers_v1 null_first_engine_v1 ''ping'' NoData) = Inl TypeError \<and>
      delivered_v1 (snd (notifyObservers_v1 null_first_engine_v1 ''ping'' NoData)) =
        delivered_v1 null_first_engine_v1 @
          map (\<lambda>g. (obs1_id g, event_of_v1 null_first_engine_v1 ''ping'' NoData))
            ([] @ [null_observer_v1])"
    using thm1 o1 c1 n1 by blast
  have 3: "fst (notifyObservers two_observer_engine ''ping'' NoData 3) = Inr () \<and>
      published two_observer_engine (snd (notifyObservers two_observer_engine ''ping'' NoData 3))
        (event_of two_observer_engine ''ping'' NoData 3) \<and>
      map fst (drop (length (caught two_observer_engine))
                 (caught (snd (notifyObservers two_observer_engine ''ping'' NoData 3)))) =
        map obs_id (filter (\<lambda>f. obs_call f (event_of two_observer_engine ''ping'' NoData 3) \<noteq> None)
          (observers two_observer_engine))"
    using thm2 q by blast
  show ?thesis
    using 1 2 3 o o1 c n0 q
    by (simp add: null_first_engine_eval null_first_engine_v1_eval two_observer_engine_eval
        published_def null_observer_def null_observer_v1_def failing_observer_def
        quiet_observer_def)
qed

subsection \<open>The order of cleanup\<close>

text \<open>
  Claim C2 does not hold of the code. In both variants \<open>cleanup\<close> drops the
  subscribers before it publishes: the abstract base class clears \<open>observers\<close>
  first and then calls \<open>setState('cleanup')\<close>, whose \<open>stateChanged\<close> publish
  finds no observer; the earlier variant empties \<open>observers\<close> and then calls
  \<open>notifyObservers('cleanup')\<close>. So for every engine the publish of cleanup runs
  with zero observers, after the subscribers are gone, and no observer is called:
  what has been delivered after \<open>cleanup\<close> is what had been delivered before it
  (in the earlier variant, after its \<open>stop()\<close>, which returns at once unless the
  engine is running; should \<open>stop()\<close> throw, \<open>cleanup\<close> ends there).
\<close>

theorem cleanup_notifies_nobody:
  "fst (cleanup e now) = Inr () \<and>
   gameState (snd (cleanup e now)) = ''cleanup'' \<and>
   observers (snd (cleanup e now)) = [] \<and>
   notify_log (snd (cleanup e now)) = notify_log e @ [(0, ''stateChanged'')] \<and>
   delivered (snd (cleanup e now)) = delivered e \<and>
   (\<not> isRunning_v1 e1 \<longrightarrow> stop_v1 e1 = (Inr (), e1)) \<and>
   (fst (stop_v1 e1) = Inr () \<longrightarrow>
      fst (cleanup_v1 e1) = Inr () \<and>
      observers_v1 (snd (cleanup_v1 e1)) = [] \<and>
      notify_log_v1 (snd (cleanup_v1 e1)) =
        notify_log_v1 (snd (stop_v1 e1)) @ [(0, ''cleanup'')] \<and>
      delivered_v1 (snd (cleanup_v1 e1)) = delivered_v1 (snd (stop_v1 e1))) \<and>
   (fst (stop_v1 e1) \<noteq> Inr () \<longrightarrow> cleanup_v1 e1 = stop_v1 e1)"
  by (cases "fst (stop_v1 e1)") (simp_all add: cleanup_closed cleanup_v1_closed stop_v1_idle)

theorem cleanup_notifies_nobody_witness:
  "observers watched_engine = [quiet_observer] \<and>
   delivered (snd (cleanup watched_engine 7)) = [] \<and>
   notify_log (snd (cleanup watched_engine 7)) = [(0, ''stateChanged'')] \<and>
   gameState (snd (cleanup watched_engine 7)) = ''cleanup'' \<and>
   observers_v1 watched_engine_v1 = [quiet_observer_v1] \<and>
   fst (stop_v1 watched_engine_v1) = Inr () \<and>
   delivered_v1 (snd (cleanup_v1 watched_engine_v1)) = [] \<and>
   notify_log_v1 (snd (cleanup_v1 watched_engine_v1)) = [(0, ''cleanup'')]"
  using cleanup_notifies_nobody [of watched_engine 7 watched_engine_v1]
    watched_engine_observers watched_engine_v1_eval
  by (simp add: watched_engine_def addObserver_def new_SimpleARGameEngine_def)

subsection \<open>Actions after cleanup\<close>

lemma processAction_not_playing:
  "gameState e \<noteq> ''playing'' \<Longrightarrow> processAction e p a d env = (Inr False, e)"
  by (simp add: processAction_def validateState_def)

lemma processActions_not_playing:
  "gameState e \<noteq> ''playing'' \<Longrightarrow>
   processActions e cs = (replicate (length cs) (Inr False), e)"
  by (induction cs) (simp_all add: processAction_not_playing)

text \<open>
  Claim C5. After \<open>cleanup\<close> of a \<open>SimpleARGameEngine\<close>, every call in every
  sequence of \<open>processAction\<close> calls, whatever its player, action and data,
  returns \<open>false\<close> without throwing, and the engine after the sequence is the
  engine that \<open>cleanup\<close> left: no field changed, nothing published, no observer
  called.
\<close>

theorem processAction_after_cleanup:
  "processActions (snd (cleanup e now)) cs =
     (replicate (length cs) (Inr False), snd (cleanup e now))"
  by (rule processActions_not_playing) (simp add: cleanup_closed)

theorem processAction_after_cleanup_witness:
  "processActions (snd (cleanup played_engine 7)) [place_call, place_call] =
     ([Inr False, Inr False], snd (cleanup played_engine 7))"
  using processAction_after_cleanup [of played_engine 7 "[place_call, place_call]"]
  by (simp add: numeral_2_eq_2)

subsection \<open>The player roster\<close>

lemma findIndex_None: "findIndex P xs = None \<longleftrightarrow> (\<forall>x \<in> set xs. \<not> P x)"
  by (induction xs) (auto split: option.splits)

lemma findIndex_Some: "findIndex P xs = Some i \<Longrightarrow> i < length xs \<and> P (xs ! i)"
  by (induction xs arbitrary: i) (auto split: if_splits option.splits)

lemma length_splice1: "i < length xs \<Longrightarrow> length (splice1 xs i) = length xs - 1"
  by (simp add: splice1_def)

lemma notifyObservers_published:
  assumes "fst (notifyObservers e1 t d now) = Inr ()"
    and "notify_log e1 = notify_log e" and "delivered e1 = delivered e"
    and "observers e1 = observers e" and "event_of e1 t d now = ev"
  shows "published e (snd (notifyObservers e1 t d now)) ev"
proof -
  have "no_nullish (\<lambda>f. obs_call f (event_of e1 t d now)) (observers e1)"
    using assms(1) by (simp add: notifyObservers_closed loop_result_def split: if_splits)
  from reached_all [OF this] show ?thesis
    using assms(2-5) by (auto simp: notifyObservers_closed published_def event_of_def)
qed

lemma notifyObservers_v1_published:
  assumes "fst (notifyObservers_v1 e1 t d) = Inr ()"
    and "notify_log_v1 e1 = notify_log_v1 e" and "delivered_v1 e1 = delivered_v1 e"
    and "observers_v1 e1 = observers_v1 e" and "event_of_v1 e1 t d = ev"
  shows "published_v1 e (snd (notifyObservers_v1 e1 t d)) ev"
proof -
  have "no_nullish (\<lambda>f. obs1_call f (event_of_v1 e1 t d)) (observers_v1 e1)"
    using assms(1) by (simp add: notifyObservers_v1_closed loop_result_def split: if_splits)
  from reached_all [OF this] show ?thesis
    using assms(2-5) by (auto simp: notifyObservers_v1_closed published_v1_def event_of_v1_def)
qed

lemma addPlayer_present:
  "pid \<in> p_id ` set (players e) \<Longrightarrow> addPlayer e pid d now = (Inr False, e)"
  by (auto simp: addPlayer_def find_None_iff)

lemma addPlayer_absent:
  assumes "pid \<notin> p_id ` set (players e)"
  shows "fst (addPlayer e pid d now) =
           (if no_nullish
                 (\<lambda>f. obs_call f (event_of e ''playerAdded'' (PlayerAdded pid (make_player pid d now)) now))
                 (observers e)
            then Inr True else Inl TypeError) \<and>
         players (snd (addPlayer e pid d now)) = players e @ [make_player pid d now]"
proof -
  have "find (\<lambda>p. p_id p = pid) (players e) = None"
    using assms by (auto simp: find_None_iff)
  then show ?thesis
    by (simp add: addPlayer_def Let_def and_then_value notifyObservers_closed loop_result_def
        event_of_def)
qed

lemma addPlayer_published:
  assumes "fst (addPlayer e pid d now) = Inr True"
  shows "published e (snd (addPlayer e pid d now))
           (event_of e ''playerAdded'' (PlayerAdded pid (make_player pid d now)) now)"
proof -
  have nf: "find (\<lambda>p. p_id p = pid) (players e) = None"
    using assms by (auto simp: addPlayer_def split: if_splits)
  define e1 where "e1 = e\<lparr>players := players e @ [make_player pid d now]\<rparr>"
  have ap: "addPlayer e pid d now =
      and_then (notifyObservers e1 ''playerAdded'' (PlayerAdded pid (make_player pid d now)) now)
        (\<lambda>u e2. (Inr True, e2))"
    using nf by (simp add: addPlayer_def Let_def e1_def)
  have "fst (notifyObservers e1 ''playerAdded'' (PlayerAdded pid (make_player pid d now)) now)
          = Inr ()"
    using assms unfolding ap and_then_value by (simp split: sum.splits)
  from notifyObservers_published [OF this, of e]
  show ?thesis unfolding ap and_then_value by (simp add: e1_def event_of_def)
qed

lemma removePlayer_absent:
  assumes "pid \<notin> p_id ` set (players e)"
  shows "removePlayer e pid now = (Inr False, e)"
proof -
  have "findIndex (\<lambda>p. p_id p = pid) (players e) = None"
    using assms by (auto simp: findIndex_None)
  then show ?thesis by (simp add: removePlayer_def)
qed

lemma removePlayer_present:
  assumes "pid \<in> p_id ` set (players e)"
  shows "\<exists>p \<in> set (players e). p_id p = pid \<and>
         fst (removePlayer e pid now) =
           (if no_nullish
                 (\<lambda>f. obs_call f (event_of e ''playerRemoved'' (PlayerRemoved pid p) now))
                 (observers e)
            then Inr True else Inl TypeError) \<and>
         (fst (removePlayer e pid now) = Inr True \<longrightarrow>
            published e (snd (removePlayer e pid now))
              (event_of e ''playerRemoved'' (PlayerRemoved pid p) now))"
proof -
  from assms have "findIndex (\<lambda>p. p_id p = pid) (players e) \<noteq> None"
    by (auto simp: findIndex_None)
  then obtain i where i: "findIndex (\<lambda>p. p_id p = pid) (players e) = Some i" by blast
  define p where "p = players e ! i"
  define e1 where "e1 = e\<lparr>players := splice1 (players e) i\<rparr>"
  from findIndex_Some [OF i] have mem: "p \<in> set (players e)" "p_id p = pid"
    by (simp_all add: p_def)
  have rp: "removePlayer e pid now =
      and_then (notifyObservers e1 ''playerRemoved'' (PlayerRemoved pid p) now)
        (\<lambda>u e2. (Inr True, e2))"
    using i by (simp add: removePlayer_def Let_def e1_def p_def)
  have 1: "fst (removePlayer e pid now) =
           (if no_nullish
                 (\<lambda>f. obs_call f (event_of e ''playerRemoved'' (PlayerRemoved pid p) now))
                 (observers e)
            then Inr True else Inl TypeError)"
    unfolding rp and_then_value
    by (simp add: notifyObservers_closed loop_result_def e1_def event_of_def)
  have 2: "published e (snd (removePlayer e pid now))
              (event_of e ''playerRemoved'' (PlayerRemoved pid p) now)"
    if "fst (removePlayer e pid now) = Inr True"
  proof -
    have "fst (notifyObservers e1 ''playerRemoved'' (PlayerRemoved pid p) now) = Inr ()"
      using that unfolding rp and_then_value by (simp split: sum.splits)
    from notifyObservers_published [OF this, of e]
    show ?thesis unfolding rp and_then_value by (simp add: e1_def event_of_def)
  qed
  show ?thesis using mem 1 2 by blast
qed

lemma addPlayer_v1_closed:
  "fst (addPlayer_v1 e pid d now) =
     (if no_nullish
           (\<lambda>f. obs1_call f
              (event_of_v1 e ''playerAdded'' (PlayerAdded pid (make_player_v1 pid d now))))
           (observers_v1 e)
      then Inr (make_player_v1 pid d now) else Inl TypeError) \<and>
   map_of (players_v1 (snd (addPlayer_v1 e pid d now))) pid = Some (make_player_v1 pid d now) \<and>
   (\<not> isl (fst (addPlayer_v1 e pid d now)) \<longrightarrow>
      published_v1 e (snd (addPlayer_v1 e pid d now))
        (event_of_v1 e ''playerAdded'' (PlayerAdded pid (make_player_v1 pid d now))))"
proof -
  define e1 where
    "e1 = e\<lparr>players_v1 := AList.update pid (make_player_v1 pid d now) (players_v1 e)\<rparr>"
  have ap: "addPlayer_v1 e pid d now =
      and_then (notifyObservers_v1 e1 ''playerAdded'' (PlayerAdded pid (make_player_v1 pid d now)))
        (\<lambda>u e2. (Inr (make_player_v1 pid d now), e2))"
    by (simp add: addPlayer_v1_def Let_def e1_def)
  have 1: "fst (addPlayer_v1 e pid d now) =
     (if no_nullish
           (\<lambda>f. obs1_call f
              (event_of_v1 e ''playerAdded'' (PlayerAdded pid (make_player_v1 pid d now))))
           (observers_v1 e)
      then Inr (make_player_v1 pid d now) else Inl TypeError)"
    unfolding ap and_then_value
    by (simp add: notifyObservers_v1_closed loop_result_def e1_def event_of_v1_def)
  have 2: "map_of (players_v1 (snd (addPlayer_v1 e pid d now))) pid
             = Some (make_player_v1 pid d now)"
    unfolding ap and_then_value
    by (simp add: notifyObservers_v1_closed e1_def update_conv')
  have 3: "published_v1 e (snd (addPlayer_v1 e pid d now))
        (event_of_v1 e ''playerAdded'' (PlayerAdded pid (make_player_v1 pid d now)))"
    if "\<not> isl (fst (addPlayer_v1 e pid d now))"
  proof -
    have "fst (notifyObservers_v1 e1 ''playerAdded''
                 (PlayerAdded pid (make_player_v1 pid d now))) = Inr ()"
      using that unfolding ap and_then_value by (simp split: sum.splits)
    from notifyObservers_v1_published [OF this, of e]
    show ?thesis unfolding ap and_then_value by (simp add: e1_def event_of_v1_def)
  qed
  show ?thesis using 1 2 3 by blast
qed

lemma removePlayer_v1_absent:
  "map_of (players_v1 e) pid = None \<Longrightarrow> removePlayer_v1 e pid = (Inr False, e)"
  by (simp add: removePlayer_v1_def)

lemma removePlayer_v1_present:
  assumes "map_of (players_v1 e) pid = Some p"
  shows "fst (removePlayer_v1 e pid) =
           (if no_nullish
                 (\<lambda>f. obs1_call f (event_of_v1 e ''playerRemoved'' (PlayerRemoved pid p)))
                 (observers_v1 e)
            then Inr True else Inl TypeError) \<and>
         map_of (players_v1 (snd (removePlayer_v1 e pid))) pid = None \<and>
         (fst (removePlayer_v1 e pid) = Inr True \<longrightarrow>
            published_v1 e (snd (removePlayer_v1 e pid))
              (event_of_v1 e ''playerRemoved'' (PlayerRemoved pid p)))"
proof -
  define e1 where "e1 = e\<lparr>players_v1 := AList.delete pid (players_v1 e)\<rparr>"
  have rp: "removePlayer_v1 e pid =
      and_then (notifyObservers_v1 e1 ''playerRemoved'' (PlayerRemoved pid p))
        (\<lambda>u e2. (Inr True, e2))"
    using assms by (simp add: removePlayer_v1_def Let_def e1_def)
  have 1: "fst (removePlayer_v1 e pid) =
           (if no_nullish
                 (\<lambda>f. obs1_call f (event_of_v1 e ''playerRemoved'' (PlayerRemoved pid p)))
                 (observers_v1 e)
            then Inr True else Inl TypeError)"
    unfolding rp and_then_value
    by (simp add: notifyObservers_v1_closed loop_result_def e1_def event_of_v1_def)
  have 2: "map_of (players_v1 (snd (removePlayer_v1 e pid))) pid = None"
    unfolding rp and_then_value
    by (simp add: notifyObservers_v1_closed e1_def delete_conv')
  have 3: "published_v1 e (snd (removePlayer_v1 e pid))
              (event_of_v1 e ''playerRemoved'' (PlayerRemoved pid p))"
    if "fst (removePlayer_v1 e pid) = Inr True"
  proof -
    have "fst (notifyObservers_v1 e1 ''playerRemoved'' (PlayerRemoved pid p)) = Inr ()"
      using that unfolding rp and_then_value by (simp split: sum.splits)
    from notifyObservers_v1_published [OF this, of e]
    show ?thesis unfolding rp and_then_value by (simp add: e1_def event_of_v1_def)
  qed
  show ?thesis using 1 2 3 by blast
qed

text \<open>
  Claim C8, as the code has it. In the abstract base class, \<open>addPlayer\<close> for an id
  in the roster and \<open>removePlayer\<close> for an id not in the roster return
  \<open>false\<close> and leave the engine as it was (nothing published). \<open>addPlayer\<close>
  for an id not in the roster and \<open>removePlayer\<close> for an id in the roster
  return \<open>true\<close> (unless an observer throws \<open>null\<close> or \<open>undefined\<close>,
  which the publish passes on as a \<open>TypeError\<close>), and every call that returns
  \<open>true\<close> has published one \<open>playerAdded\<close>, or one \<open>playerRemoved\<close>, to
  every observer. In the earlier variant, whose roster is a \<open>Map\<close>,
  \<open>removePlayer\<close> behaves the same way, but \<open>addPlayer\<close> has no check:
  whether or not the id is present it stores the new player under the id, and
  when it returns it returns the player object and has published \<open>playerAdded\<close>.
\<close>

theorem addPlayer_removePlayer_events:
  "(pid \<in> p_id ` set (players e) \<longrightarrow> addPlayer e pid d now = (Inr False, e)) \<and>
   (pid \<notin> p_id ` set (players e) \<longrightarrow>
      fst (addPlayer e pid d now) =
        (if no_nullish
              (\<lambda>f. obs_call f
                 (event_of e ''playerAdded'' (PlayerAdded pid (make_player pid d now)) now))
              (observers e)
         then Inr True else Inl TypeError)) \<and>
   (fst (addPlayer e pid d now) = Inr True \<longrightarrow>
      published e (snd (addPlayer e pid d now))
        (event_of e ''playerAdded'' (PlayerAdded pid (make_player pid d now)) now)) \<and>
   (pid \<notin> p_id ` set (players e) \<longrightarrow> removePlayer e pid now = (Inr False, e)) \<and>
   (pid \<in> p_id ` set (players e) \<longrightarrow>
      (\<exists>p \<in> set (players e). p_id p = pid \<and>
         fst (removePlayer e pid now) =
           (if no_nullish
                 (\<lambda>f. obs_call f (event_of e ''playerRemoved'' (PlayerRemoved pid p) now))
                 (observers e)
            then Inr True else Inl TypeError) \<and>
         (fst (removePlayer e pid now) = Inr True \<longrightarrow>
            published e (snd (removePlayer e pid now))
              (event_of e ''playerRemoved'' (PlayerRemoved pid p) now)))) \<and>
   (map_of (players_v1 e1) pid = None \<longrightarrow> removePlayer_v1 e1 pid = (Inr False, e1)) \<and>
   (\<forall>p. map_of (players_v1 e1) pid = Some p \<longrightarrow>
      fst (removePlayer_v1 e1 pid) =
        (if no_nullish
              (\<lambda>f. obs1_call f (event_of_v1 e1 ''playerRemoved'' (PlayerRemoved pid p)))
              (observers_v1 e1)
         then Inr True else Inl TypeError) \<and>
      (fst (removePlayer_v1 e1 pid) = Inr True \<longrightarrow>
         published_v1 e1 (snd (removePlayer_v1 e1 pid))
           (event_of_v1 e1 ''playerRemoved'' (PlayerRemoved pid p)))) \<and>
   fst (addPlayer_v1 e1 pid d now) =
     (if no_nullish
           (\<lambda>f. obs1_call f
              (event_of_v1 e1 ''playerAdded'' (PlayerAdded pid (make_player_v1 pid d now))))
           (observers_v1 e1)
      then Inr (make_player_v1 pid d now) else Inl TypeError) \<and>
   map_of (players_v1 (snd (addPlayer_v1 e1 pid d now))) pid = Some (make_player_v1 pid d now) \<and>
   (\<not> isl (fst (addPlayer_v1 e1 pid d now)) \<longrightarrow>
      published_v1 e1 (snd (addPlayer_v1 e1 pid d now))
        (event_of_v1 e1 ''playerAdded'' (PlayerAdded pid (make_player_v1 pid d now))))"
  using addPlayer_present [of pid e d now] addPlayer_absent [of pid e d now]
    addPlayer_published [of e pid d now]
    removePlayer_absent [of pid e now] removePlayer_present [of pid e now]
    removePlayer_v1_absent [of e1 pid]
    removePlayer_v1_present [of e1 pid] addPlayer_v1_closed [of e1 pid d now]
  by blast

theorem addPlayer_removePlayer_events_witness:
  "''p1'' \<in> p_id ` set (players one_player_engine) \<and>
   addPlayer one_player_engine ''p1'' no_data 2 = (Inr False, one_player_engine) \<and>
   ''p2'' \<notin> p_id ` set (players one_player_engine) \<and>
   removePlayer one_player_engine ''p2'' 2 = (Inr False, one_player_engine) \<and>
   fst (addPlayer one_player_engine ''p2'' no_data 2) = Inr True \<and>
   published one_player_engine (snd (addPlayer one_player_engine ''p2'' no_data 2))
     (event_of one_player_engine ''playerAdded''
        (PlayerAdded ''p2'' (make_player ''p2'' no_data 2)) 2) \<and>
   map_of (players_v1 one_player_engine_v1) ''p2'' = None \<and>
   removePlayer_v1 one_player_engine_v1 ''p2'' = (Inr False, one_player_engine_v1)"
proof -
  have a: "''p1'' \<in> p_id ` set (players one_player_engine)"
    by (simp add: one_player_engine_players)
  have b: "''p2'' \<notin> p_id ` set (players one_player_engine)"
    by (simp add: one_player_engine_players)
  have q: "no_nullish
     (\<lambda>f. obs_call f (event_of one_player_engine ''playerAdded''
        (PlayerAdded ''p2'' (make_player ''p2'' no_data 2)) 2))
     (observers one_player_engine)"
    by (simp add: one_player_engine_observers quiet_no_nullish)
  show ?thesis
    using addPlayer_removePlayer_events
        [of "''p1''" one_player_engine no_data 2 one_player_engine_v1]
      addPlayer_removePlayer_events
        [of "''p2''" one_player_engine no_data 2 one_player_engine_v1]
      a b q one_player_engine_v1_eval
    by simp
qed

text \<open>
  Claim C8 as stated fails for the earlier variant: with \<open>p1\<close> in the roster, a
  second \<open>addPlayer('p1')\<close> returns the new player object, replaces the stored
  player, and the subscribed observer receives a second \<open>playerAdded\<close>.
\<close>

theorem addPlayer_v1_duplicate_counterexample:
  "map_of (players_v1 one_player_engine_v1) ''p1''
     = Some \<lparr>p_id = ''p1'', p_joinedAt = 1, p_rest = []\<rparr> \<and>
   fst (addPlayer_v1 one_player_engine_v1 ''p1'' no_data 2)
     = Inr \<lparr>p_id = ''p1'', p_joinedAt = 2, p_rest = []\<rparr> \<and>
   map_of (players_v1 (snd (addPlayer_v1 one_player_engine_v1 ''p1'' no_data 2))) ''p1''
     = Some \<lparr>p_id = ''p1'', p_joinedAt = 2, p_rest = []\<rparr> \<and>
   map (\<lambda>x. (fst x, ev1_event (snd x)))
       (delivered_v1 (snd (addPlayer_v1 one_player_engine_v1 ''p1'' no_data 2)))
     = [(1, ''playerAdded''), (1, ''playerAdded'')]"
  by (simp add: one_player_engine_v1_def watched_engine_v1_def addObserver_v1_def
      addPlayer_v1_def new_GameEngine_v1_def no_data_def make_player_v1_def Let_def
      and_then_value notifyObservers_v1_closed quiet_observer_v1_def loop_result_def
      no_nullish_def event_of_v1_def)

subsection \<open>What the methods do to maxObjects\<close>

lemma num_or_nonzero: "d \<noteq> 0 \<Longrightarrow> num_or v d \<noteq> 0"
  by (simp add: num_or_def split: option.splits)

lemma maxObjects_addPlayer: "maxObjects (snd (addPlayer e pid d now)) = maxObjects e"
  by (simp add: addPlayer_def Let_def and_then_value notifyObservers_closed)

lemma maxObjects_removePlayer: "maxObjects (snd (removePlayer e pid now)) = maxObjects e"
  by (simp add: removePlayer_def Let_def and_then_value notifyObservers_closed
      split: option.splits)

lemma maxObjects_addObserver: "maxObjects (snd (addObserver e ob)) = maxObjects e"
  by (simp add: addObserver_def split: option.splits)

lemma maxObjects_handlePlaceObject:
  "maxObjects (snd (handlePlaceObject e pid data env)) = maxObjects e"
  by (simp add: handlePlaceObject_def Let_def and_then_value notifyObservers_closed
      split: option.splits)

lemma maxObjects_handleRemoveObject:
  "maxObjects (snd (handleRemoveObject e pid data env)) = maxObjects e"
  by (simp add: handleRemoveObject_def Let_def and_then_value notifyObservers_closed
      split: option.splits)

lemma maxObjects_processAction:
  "maxObjects (snd (processAction e pid a data env)) = maxObjects e"
  by (simp add: processAction_def maxObjects_handlePlaceObject maxObjects_handleRemoveObject)

lemma maxObjects_processActions:
  "maxObjects (snd (processActions e cs)) = maxObjects e"
  by (induction cs arbitrary: e) (simp_all add: split_beta Let_def maxObjects_processAction)

lemma maxObjects_initializeGame:
  "maxObjects (snd (initializeGame e config now)) = num_or (ic_maxObjects config) 10"
  by (simp add: initializeGame_def Let_def and_then_value setState_closed
      notifyObservers_closed)

lemma placedObjects_initializeGame: "placedObjects (snd (initializeGame e config now)) = []"
  by (simp add: initializeGame_def Let_def and_then_value setState_closed
      notifyObservers_closed)

lemma maxObjects_deserializeState:
  "maxObjects (snd (deserializeState e snap now)) = num_or (s_maxObjects snap) 10"
  by (simp add: deserializeState_def Let_def notifyObservers_closed)

lemma reachable_maxObjects: "reachable e \<Longrightarrow> maxObjects e \<noteq> 0"
proof (induction rule: reachable.induct)
  case reach_new
  show ?case by (simp add: new_SimpleARGameEngine_def)
next
  case (reach_initializeGame e config now)
  show ?case by (simp add: maxObjects_initializeGame num_or_nonzero)
next
  case (reach_deserializeState e snap now)
  show ?case by (simp add: maxObjects_deserializeState num_or_nonzero)
qed (simp_all add: maxObjects_addObserver removeObserver_def maxObjects_addPlayer
      maxObjects_removePlayer setState_closed notifyObservers_closed cleanup_closed
      maxObjects_processAction)

subsection \<open>Serialize, then deserialize\<close>

text \<open>
  Claim C9. For every state \<open>e\<close> that a \<open>SimpleARGameEngine\<close> reaches through
  its methods, \<open>deserializeState\<close> of the snapshot \<open>serializeState\<close> took of
  \<open>e\<close>, on any engine \<open>e2\<close>, leaves that engine with the player roster,
  placed objects, \<open>maxObjects\<close> and game state of \<open>e\<close>; on \<open>e\<close> itself
  it changes nothing but the record of the \<open>stateRestored\<close> publish. The state
  is restored before that publish, so this holds also when the publish passes on a
  thrown \<open>null\<close> of an observer; otherwise the call returns normally.
\<close>

theorem serialize_deserialize_roundtrip:
  assumes "reachable e"
  shows "fst (deserializeState e2 (serializeState e) now) =
           (if no_nullish
                 (\<lambda>f. obs_call f
                    \<lparr>ev_gameId = gameId e2, ev_eventType = ''stateRestored'',
                      ev_timestamp = now, ev_gameState = gameState e,
                      ev_data = StateRestored (serializeState e)\<rparr>)
                 (observers e2)
            then Inr () else Inl TypeError) \<and>
         players (snd (deserializeState e2 (serializeState e) now)) = players e \<and>
         placedObjects (snd (deserializeState e2 (serializeState e) now)) = placedObjects e \<and>
         maxObjects (snd (deserializeState e2 (serializeState e) now)) = maxObjects e \<and>
         gameState (snd (deserializeState e2 (serializeState e) now)) = gameState e \<and>
         (snd (deserializeState e (serializeState e) now))
           \<lparr>notify_log := notify_log e, delivered := delivered e, caught := caught e\<rparr> = e"
proof -
  have m: "num_or (Some (maxObjects e)) 10 = maxObjects e"
    using reachable_maxObjects [OF assms] by (simp add: num_or_def)
  have g: "s_gameState (serializeState e) = gameState e"
    "s_players (serializeState e) = Some (players e)"
    "s_placedObjects (serializeState e) = Some (placedObjects e)"
    "s_maxObjects (serializeState e) = Some (maxObjects e)"
    by (simp_all add: serializeState_def)
  show ?thesis
    by (simp add: deserializeState_def Let_def notifyObservers_closed g m loop_result_def
        event_of_def)
qed

theorem serialize_deserialize_roundtrip_witness:
  "reachable played_engine \<and>
   fst (deserializeState new_SimpleARGameEngine (serializeState played_engine) 11) = Inr () \<and>
   placedObjects (snd (deserializeState new_SimpleARGameEngine (serializeState played_engine) 11)) =
     [\<lparr>o_id = ''obj_9_a'', o_playerId = ''local-player'',
       o_position = \<lparr>vx = 0, vy = 0, vz = 0\<rparr>,
       o_type = ''cube'', o_color = 255, o_createdAt = 9\<rparr>] \<and>
   maxObjects (snd (deserializeState new_SimpleARGameEngine (serializeState played_engine) 11)) = 1 \<and>
   gameState (snd (deserializeState new_SimpleARGameEngine (serializeState played_engine) 11))
     = ''playing'' \<and>
   players (snd (deserializeState new_SimpleARGameEngine (serializeState played_engine) 11)) =
     [\<lparr>p_id = ''p1'', p_joinedAt = 1, p_rest = []\<rparr>]"
proof -
  have o: "observers new_SimpleARGameEngine = []"
    by (simp add: new_SimpleARGameEngine_def)
  show ?thesis
    using serialize_deserialize_roundtrip [OF reachable_played, of new_SimpleARGameEngine 11]
      reachable_played played_engine_eval
    by (simp add: o no_nullish_Nil)
qed

subsection \<open>The limit on placed objects\<close>

lemma handlePlaceObject_full:
  "maxObjects e \<le> real (length (placedObjects e)) \<Longrightarrow>
   handlePlaceObject e pid data env = (Inr False, e)"
  by (simp add: handlePlaceObject_def)

lemma processAction_place_full:
  "maxObjects e \<le> real (length (placedObjects e)) \<Longrightarrow>
   processAction e pid ''placeObject'' data env = (Inr False, e)"
  by (simp add: processAction_def handlePlaceObject_full)

lemma below_next_handlePlaceObject:
  "real (length (placedObjects e)) < maxObjects e + 1 \<Longrightarrow>
   real (length (placedObjects (snd (handlePlaceObject e pid data env))))
     < maxObjects (snd (handlePlaceObject e pid data env)) + 1"
  by (simp add: handlePlaceObject_def Let_def and_then_value notifyObservers_closed
      split: option.splits)

lemma below_next_handleRemoveObject:
  assumes "real (length (placedObjects e)) < maxObjects e + 1"
  shows "real (length (placedObjects (snd (handleRemoveObject e pid data env))))
           < maxObjects (snd (handleRemoveObject e pid data env)) + 1"
proof (cases data)
  case None
  then show ?thesis using assms by (simp add: handleRemoveObject_def)
next
  case (Some d)
  show ?thesis
  proof (cases "findIndex (\<lambda>obj. Some (o_id obj) = ad_objectId d) (placedObjects e)")
    case None
    then show ?thesis using assms Some by (simp add: handleRemoveObject_def)
  next
    case (Some i)
    from findIndex_Some [OF Some] have "i < length (placedObjects e)" by simp
    then have "length (splice1 (placedObjects e) i) \<le> length (placedObjects e)"
      by (simp add: length_splice1)
    then have "real (length (splice1 (placedObjects e) i)) < maxObjects e + 1"
      using assms by linarith
    then show ?thesis
      using Some \<open>data = Some d\<close>
      by (simp add: handleRemoveObject_def Let_def and_then_value notifyObservers_closed)
  qed
qed

lemma below_next_processAction:
  "real (length (placedObjects e)) < maxObjects e + 1 \<Longrightarrow>
   real (length (placedObjects (snd (processAction e pid a data env))))
     < maxObjects (snd (processAction e pid a data env)) + 1"
  by (simp add: processAction_def below_next_handlePlaceObject below_next_handleRemoveObject)

lemma below_next_processActions:
  "real (length (placedObjects e)) < maxObjects e + 1 \<Longrightarrow>
   real (length (placedObjects (snd (processActions e cs))))
     < maxObjects (snd (processActions e cs)) + 1"
proof (induction cs arbitrary: e)
  case Nil
  then show ?case by simp
next
  case (Cons c cs)
  have "real (length (placedObjects
          (snd (processAction e (ac_playerId c) (ac_action c) (ac_data c) (ac_env c)))))
        < maxObjects (snd (processAction e (ac_playerId c) (ac_action c) (ac_data c) (ac_env c)))
          + 1"
    using Cons.prems by (rule below_next_processAction)
  from Cons.IH [OF this] show ?case
    by (simp add: split_beta Let_def)
qed

lemma whole_limit: "m \<in> \<int> \<Longrightarrow> real k < m + 1 \<Longrightarrow> real k \<le> m"
proof -
  assume "m \<in> \<int>" and k: "real k < m + 1"
  then obtain z :: int where z: "m = of_int z" by (auto elim: Ints_cases)
  from k have "int k < z + 1" unfolding z by linarith
  then have "int k \<le> z" by simp
  then show ?thesis unfolding z by linarith
qed

lemma num_or_whole: "(case v of None \<Rightarrow> True | Some n \<Rightarrow> n \<in> \<int>) \<Longrightarrow> num_or v 10 \<in> \<int>"
  by (simp add: num_or_def split: option.splits)

text \<open>
  Claim C10, as the code has it. After \<open>initializeGame(config)\<close> with
  \<open>config.maxObjects\<close> absent, zero or a positive whole number,
  \<open>placedObjects.length <= maxObjects\<close> holds, and it holds after every
  sequence of \<open>processAction\<close> calls that follows, none of which changes
  \<open>maxObjects\<close>. With a limit that is not negative but not a whole number only
  \<open>placedObjects.length < maxObjects + 1\<close> is kept. For every engine state, a
  \<open>placeObject\<close> action issued when \<open>placedObjects.length\<close> has reached
  \<open>maxObjects\<close> returns \<open>false\<close> and changes nothing.
\<close>

theorem placedObjects_within_limit:
  assumes "case ic_maxObjects config of None \<Rightarrow> True | Some n \<Rightarrow> 0 \<le> n"
  shows "((case ic_maxObjects config of None \<Rightarrow> True | Some n \<Rightarrow> n \<in> \<int>) \<longrightarrow>
            within_limit (snd (initializeGame e config now)) \<and>
            within_limit (snd (processActions (snd (initializeGame e config now)) cs))) \<and>
         real (length (placedObjects (snd (processActions (snd (initializeGame e config now)) cs))))
           < maxObjects (snd (processActions (snd (initializeGame e config now)) cs)) + 1 \<and>
         maxObjects (snd (processActions (snd (initializeGame e config now)) cs))
           = num_or (ic_maxObjects config) 10 \<and>
         (\<forall>e1 pid data env. maxObjects e1 \<le> real (length (placedObjects e1)) \<longrightarrow>
            processAction e1 pid ''placeObject'' data env = (Inr False, e1))"
proof -
  have nn: "0 \<le> num_or (ic_maxObjects config) 10"
    using assms by (simp add: num_or_def split: option.splits)
  have m: "maxObjects (snd (processActions (snd (initializeGame e config now)) cs))
             = num_or (ic_maxObjects config) 10"
    by (simp add: maxObjects_processActions maxObjects_initializeGame)
  have 0: "real (length (placedObjects (snd (initializeGame e config now))))
             < maxObjects (snd (initializeGame e config now)) + 1"
    using nn by (simp add: placedObjects_initializeGame maxObjects_initializeGame)
  from below_next_processActions [OF 0]
  have 1: "real (length (placedObjects
             (snd (processActions (snd (initializeGame e config now)) cs))))
           < maxObjects (snd (processActions (snd (initializeGame e config now)) cs)) + 1" .
  have 2: "within_limit (snd (initializeGame e config now)) \<and>
           within_limit (snd (processActions (snd (initializeGame e config now)) cs))"
    if "case ic_maxObjects config of None \<Rightarrow> True | Some n \<Rightarrow> n \<in> \<int>"
  proof -
    have w: "num_or (ic_maxObjects config) 10 \<in> \<int>" using that by (rule num_or_whole)
    have a: "within_limit (snd (initializeGame e config now))"
      using nn by (simp add: within_limit_def placedObjects_initializeGame
          maxObjects_initializeGame)
    have b: "within_limit (snd (processActions (snd (initializeGame e config now)) cs))"
      unfolding within_limit_def using whole_limit [OF _ 1] w m by simp
    show ?thesis using a b by simp
  qed
  show ?thesis
    using 1 2 m by (simp add: processAction_place_full)
qed

theorem placedObjects_within_limit_witness:
  "(case ic_maxObjects one_object_config of None \<Rightarrow> True | Some n \<Rightarrow> 0 \<le> n) \<and>
   (case ic_maxObjects one_object_config of None \<Rightarrow> True | Some n \<Rightarrow> n \<in> \<int>) \<and>
   fst (processActions (snd (initializeGame new_SimpleARGameEngine one_object_config 2))
          [place_call, place_call]) = [Inr True, Inr False] \<and>
   within_limit (snd (processActions
      (snd (initializeGame new_SimpleARGameEngine one_object_config 2))
      [place_call, place_call])) \<and>
   maxObjects (snd (processActions
      (snd (initializeGame new_SimpleARGameEngine one_object_config 2))
      [place_call, place_call])) = 1"
proof -
  have h: "case ic_maxObjects one_object_config of None \<Rightarrow> True | Some n \<Rightarrow> 0 \<le> n"
    by (simp add: one_object_config_def)
  have w: "case ic_maxObjects one_object_config of None \<Rightarrow> True | Some n \<Rightarrow> n \<in> \<int>"
    by (simp add: one_object_config_def)
  show ?thesis
    using placedObjects_within_limit
        [OF h, of new_SimpleARGameEngine 2 "[place_call, place_call]"] h w place_twice
    by (simp add: num_or_def one_object_config_def)
qed

text \<open>
  Claim C10 as stated fails, in two ways. \<open>initializeGame({maxObjects: -1})\<close>
  returns \<open>true\<close> and leaves no placed object and \<open>maxObjects = -1\<close>, so the
  bound is false from the start and stays false after a \<open>processAction\<close> call.
  After \<open>initializeGame({maxObjects: 2.5})\<close> three \<open>placeObject\<close> actions
  in a row succeed, and three objects are more than 2.5.
\<close>

theorem placedObjects_limit_counterexample:
  "fst (initializeGame new_SimpleARGameEngine negative_config 2) = Inr True \<and>
   placedObjects (snd (initializeGame new_SimpleARGameEngine negative_config 2)) = [] \<and>
   maxObjects (snd (initializeGame new_SimpleARGameEngine negative_config 2)) = - 1 \<and>
   \<not> within_limit (snd (initializeGame new_SimpleARGameEngine negative_config 2)) \<and>
   \<not> within_limit (snd (processActions
        (snd (initializeGame new_SimpleARGameEngine negative_config 2)) [place_call])) \<and>
   within_limit (snd (initializeGame new_SimpleARGameEngine fractional_config 2)) \<and>
   fst (processActions (snd (initializeGame new_SimpleARGameEngine fractional_config 2))
          [place_call, place_call, place_call]) = [Inr True, Inr True, Inr True] \<and>
   \<not> within_limit (snd (processActions
        (snd (initializeGame new_SimpleARGameEngine fractional_config 2))
        [place_call, place_call, place_call]))"
proof -
  have neg: "fst (initializeGame new_SimpleARGameEngine negative_config 2) = Inr True \<and>
   placedObjects (snd (initializeGame new_SimpleARGameEngine negative_config 2)) = [] \<and>
   maxObjects (snd (initializeGame new_SimpleARGameEngine negative_config 2)) = - 1 \<and>
   \<not> within_limit (snd (initializeGame new_SimpleARGameEngine negative_config 2)) \<and>
   \<not> within_limit (snd (processActions
        (snd (initializeGame new_SimpleARGameEngine negative_config 2)) [place_call]))"
    by (simp add: within_limit_def new_SimpleARGameEngine_def Let_def and_then_value
        negative_config_def notifyObservers_closed initializeGame_def setState_closed
        processAction_def validateState_def handlePlaceObject_def place_call_def num_or_def
        loop_result_def no_nullish_Nil)
  have frac0: "within_limit (snd (initializeGame new_SimpleARGameEngine fractional_config 2))"
    by (simp add: within_limit_def placedObjects_initializeGame maxObjects_initializeGame
        fractional_config_def num_or_def)
  have frac: "\<not> within_limit (snd (processActions
        (snd (initializeGame new_SimpleARGameEngine fractional_config 2))
        [place_call, place_call, place_call]))"
    using place_thrice by (simp add: within_limit_def)
  show ?thesis using neg frac0 frac place_thrice by simp
qed

end
